theory Spec2Isabelle
  imports Complex_Main "HOL-Library.Word"
begin

section \<open>JavaScript values\<close>

text \<open>
  A JavaScript \<open>number\<close> is modelled as an exact real: sums, differences and quotients are
  the mathematical ones, without the rounding of IEEE doubles, and NaN and the infinities are
  left out. A \<open>Uint8Array\<close> is a list of bytes.

  A string built by a template literal is kept as the list of its pieces, so that an
  interpolated number stays a number (its decimal rendering is not modelled).
\<close>

type_synonym number = real

type_synonym Uint8Array = "8 word list"

datatype msgpart = Str string | Num number

type_synonym message = "msgpart list"

section \<open>Errors (shared/errors/BenchmarkError.ts)\<close>

text \<open>
  An error object is an object of one of the error classes: its class, its \<open>message\<close>, the
  \<open>code\<close> of a \<open>BenchmarkError\<close> (absent on a plain \<open>Error\<close>) and its optional \<open>cause\<close>.
  JavaScript throws any value, and a promise is rejected with any value: a thrown value is an
  error object, or \<open>undefined\<close>, or \<open>null\<close>, or some other value, which has no \<open>message\<close> (a
  string, a number, a plain object). The \<open>cause\<close> of an error is the value that a \<open>catch\<close>
  clause caught, whatever it is.
\<close>

datatype errclass =
    Error
  | TypeError
  | CircuitError
  | CircuitNotFoundError
  | CircuitLoadError
  | ProofSystemError
  | WitnessGenerationError
  | ProofGenerationError
  | ProofVerificationError
  | ConfigurationError
  | ValidationError

datatype jserror =
  JSError (err_class: errclass) (err_message: message) (err_code: "string option")
    (err_cause: "thrown option")
and thrown =
    ErrorObject jserror
  | UndefinedValue
  | NullValue
  | OtherValue

definition new_Error :: "message \<Rightarrow> jserror" where
  "new_Error msg = JSError Error msg None None"

definition new_TypeError :: "message \<Rightarrow> jserror" where
  "new_TypeError msg = JSError TypeError msg None None"

definition new_CircuitNotFoundError :: "string \<Rightarrow> thrown option \<Rightarrow> jserror" where
  "new_CircuitNotFoundError circuitName cause =
     JSError CircuitNotFoundError
       [Str ''Circuit '', Str [CHR 0x27], Str circuitName, Str [CHR 0x27], Str '' not found'']
       (Some ''CIRCUIT_ERROR'') cause"

definition new_CircuitLoadError :: "message \<Rightarrow> thrown option \<Rightarrow> jserror" where
  "new_CircuitLoadError circuitName cause =
     JSError CircuitLoadError
       ([Str ''Failed to load circuit '', Str [CHR 0x27]] @ circuitName @ [Str [CHR 0x27]])
       (Some ''CIRCUIT_ERROR'') cause"

definition new_WitnessGenerationError :: "message \<Rightarrow> thrown option \<Rightarrow> jserror" where
  "new_WitnessGenerationError msg cause =
     JSError WitnessGenerationError (Str ''Witness generation failed: '' # msg)
       (Some ''PROOF_SYSTEM_ERROR'') cause"

definition new_ProofGenerationError :: "message \<Rightarrow> thrown option \<Rightarrow> jserror" where
  "new_ProofGenerationError msg cause =
     JSError ProofGenerationError (Str ''Proof generation failed: '' # msg)
       (Some ''PROOF_SYSTEM_ERROR'') cause"

definition new_ProofVerificationError :: "message \<Rightarrow> thrown option \<Rightarrow> jserror" where
  "new_ProofVerificationError msg cause =
     JSError ProofVerificationError (Str ''Proof verification failed: '' # msg)
       (Some ''PROOF_SYSTEM_ERROR'') cause"

section \<open>Domain models\<close>

subsection \<open>Circuit (domain/models/Circuit.ts)\<close>

record Circuit =
  name :: string
  bytecode :: Uint8Array
  abi :: string
  constraints :: number
  bytecodeSize :: number

subsection \<open>ProofResult, FailedProofResult and Witness (domain/models/ProofResult.ts)\<close>

record ProofResult =
  proof_bytes :: Uint8Array
  publicInputs :: Uint8Array
  generationTimeMs :: number
  verified :: bool
  verificationTimeMs :: number

record FailedProofResult = ProofResult +
  error :: message

text \<open>The constructor of \<open>ProofResult\<close>, with its two checks in the order of the source.\<close>

definition new_ProofResult ::
  "Uint8Array \<Rightarrow> Uint8Array \<Rightarrow> number \<Rightarrow> bool \<Rightarrow> number \<Rightarrow> jserror + ProofResult" where
  "new_ProofResult proof' publicInputs' generationTimeMs' verified' verificationTimeMs' =
     (if length proof' = 0 then Inl (new_Error [Str ''Proof cannot be empty''])
      else if generationTimeMs' < 0 then Inl (new_Error [Str ''Generation time cannot be negative''])
      else Inr \<lparr> proof_bytes = proof', publicInputs = publicInputs',
                 ProofResult.generationTimeMs = generationTimeMs', verified = verified',
                 verificationTimeMs = verificationTimeMs' \<rparr>)"

text \<open>The getter \<open>proofSize\<close>; it is inherited by \<open>FailedProofResult\<close>.\<close>

definition ProofResult_proofSize :: "'a ProofResult_scheme \<Rightarrow> number" where
  "ProofResult_proofSize p = real (length (proof_bytes p))"

text \<open>
  The constructor of \<open>FailedProofResult\<close> runs the super constructor first, on two empty
  arrays, the flag \<open>false\<close> and the verification time 0; only then is \<open>error\<close> stored.
\<close>

definition new_FailedProofResult :: "message \<Rightarrow> number \<Rightarrow> jserror + FailedProofResult" where
  "new_FailedProofResult error' generationTimeMs' =
     (case new_ProofResult [] [] generationTimeMs' False 0 of
        Inl e \<Rightarrow> Inl e
      | Inr base \<Rightarrow> Inr (ProofResult.extend base (FailedProofResult.fields error')))"

text \<open>\<open>ProofResult.failed(error, generationTimeMs)\<close>, the static factory.\<close>

definition ProofResult_failed :: "message \<Rightarrow> number \<Rightarrow> jserror + FailedProofResult" where
  "ProofResult_failed error' generationTimeMs' = new_FailedProofResult error' generationTimeMs'"

record Witness =
  data :: Uint8Array
  generationTimeMs :: number

definition new_Witness :: "Uint8Array \<Rightarrow> number \<Rightarrow> jserror + Witness" where
  "new_Witness data' generationTimeMs' =
     (if length data' = 0 then Inl (new_Error [Str ''Witness data cannot be empty''])
      else if generationTimeMs' < 0 then Inl (new_Error [Str ''Generation time cannot be negative''])
      else Inr \<lparr> data = data', Witness.generationTimeMs = generationTimeMs' \<rparr>)"

text \<open>The getter \<open>size\<close> of a witness.\<close>

definition Witness_size :: "Witness \<Rightarrow> number" where
  "Witness_size w = real (length (data w))"

subsection \<open>BenchmarkResult and its parts (domain/models)\<close>

text \<open>
  \<open>NodeJS.MemoryUsage\<close> has the four counters of a memory delta and \<open>arrayBuffers\<close>; the
  delta object of a stage has the four counters only.
\<close>

record MemoryFields =
  heapUsed :: number
  heapTotal :: number
  external :: number
  rss :: number

record NodeMemoryUsage = MemoryFields +
  arrayBuffers :: number

record MemoryUsage =
  before :: NodeMemoryUsage
  after :: NodeMemoryUsage
  delta :: MemoryFields

record BenchmarkStage =
  name :: string
  timeMs :: number
  memoryUsage :: MemoryUsage
  success :: bool
  error :: "message option"

definition new_BenchmarkStage ::
  "string \<Rightarrow> number \<Rightarrow> MemoryUsage \<Rightarrow> bool \<Rightarrow> message option \<Rightarrow> jserror + BenchmarkStage" where
  "new_BenchmarkStage name' timeMs' memoryUsage' success' error' =
     (if timeMs' < 0 then Inl (new_Error [Str ''Stage time cannot be negative''])
      else Inr \<lparr> BenchmarkStage.name = name', BenchmarkStage.timeMs = timeMs',
                 memoryUsage = memoryUsage', success = success',
                 BenchmarkStage.error = error' \<rparr>)"

record BenchmarkTotals =
  timeMs :: number
  memoryPeak :: number
  proofSize :: number
  witnessSize :: number

record BenchmarkMetadata =
  constraints :: number
  bytecodeSize :: number
  threads :: number
  runs :: number
  nodeVersion :: string
  platform :: string

record BenchmarkResult =
  circuitName :: string
  backend :: string
  stages :: "BenchmarkStage list"
  totals :: BenchmarkTotals
  metadata :: BenchmarkMetadata
  timestamp :: number

text \<open>
  The constructor of \<open>BenchmarkResult\<close>. Its last parameter defaults to \<open>new Date()\<close>; the
  callers below pass the date they read from the environment.
\<close>

definition new_BenchmarkResult ::
  "string \<Rightarrow> string \<Rightarrow> BenchmarkStage list \<Rightarrow> BenchmarkTotals \<Rightarrow> BenchmarkMetadata \<Rightarrow> number
     \<Rightarrow> jserror + BenchmarkResult" where
  "new_BenchmarkResult circuitName' backend' stages' totals' metadata' timestamp' =
     (if length stages' = 0 then Inl (new_Error [Str ''Benchmark must have at least one stage''])
      else Inr \<lparr> BenchmarkResult.circuitName = circuitName', BenchmarkResult.backend = backend',
                 stages = stages', totals = totals', metadata = metadata',
                 timestamp = timestamp' \<rparr>)"

section \<open>Caught values\<close>

text \<open>
  The optional argument \<open>error as Error\<close> of a constructor: the cause is the caught value,
  absent when that value is \<open>undefined\<close>.
\<close>

definition asCause :: "thrown \<Rightarrow> thrown option" where
  "asCause v = (case v of UndefinedValue \<Rightarrow> None | _ \<Rightarrow> Some v)"

text \<open>
  \<open>(error as Error).message\<close>: the cast is erased at run time. Reading a property of
  \<open>undefined\<close> or of \<open>null\<close> throws a \<open>TypeError\<close>; a value without the property yields
  \<open>undefined\<close>.
\<close>

definition cannotRead :: "string \<Rightarrow> string \<Rightarrow> jserror" where
  "cannotRead v property =
     new_TypeError [Str ''Cannot read properties of '', Str v, Str '' (reading '',
                    Str [CHR 0x27], Str property, Str [CHR 0x27], Str '')'']"

definition messageOf :: "thrown \<Rightarrow> jserror + message" where
  "messageOf v =
     (case v of
        ErrorObject e \<Rightarrow> Inr (err_message e)
      | UndefinedValue \<Rightarrow> Inl (cannotRead ''undefined'' ''message'')
      | NullValue \<Rightarrow> Inl (cannotRead ''null'' ''message'')
      | OtherValue \<Rightarrow> Inr [Str ''undefined''])"

section \<open>Effects\<close>

text \<open>
  The program runs against collaborators that it does not implement: the two repositories,
  the clock, the memory counters of the process and the console. Their state is the
  component \<open>ext\<close> of the world, of an arbitrary type; the program reads the clock and the
  counters from it and changes it only by calling a repository operation or by sleeping.
  Beside it the world keeps the profiler's flag \<open>isObserving\<close> and a trace: every logger call,
  every repository call and how its promise settled, every performance mark and measure,
  every sleep, and every error that the profiler catches from the operation of a stage (with
  the name of the stage and the readings of the clock at its start and at the catch), in the
  order in which the program makes them.
\<close>

datatype repo_op =
    Exists | Load | GetTestInputs
  | Initialize | GenerateWitness | GenerateProof | VerifyProof | Cleanup

datatype event =
    Log string message
  | Call repo_op
  | Resolved repo_op
  | Rejected repo_op thrown
  | StageThrew string number number jserror
  | Mark string
  | Measure string string string
  | Observe
  | Disconnect
  | Sleep number

record 'x world =
  ext :: 'x
  trace :: "event list"
  isObserving :: bool

text \<open>
  An asynchronous function is a function of the world that returns either the thrown value
  (\<open>Inl\<close>) or the value (\<open>Inr\<close>), and the world after it. \<open>await\<close> is sequencing. Inside the
  \<open>try\<close> block of a service, around the call of a repository, the thrown value is any value
  (\<open>thrown\<close>); every \<open>catch\<close> clause of the services throws an error object, and what the
  program throws itself is an error object, so everywhere else the thrown value is an error
  object (\<open>jserror\<close>), which is the type \<open>io\<close>.
\<close>

type_synonym ('e, 'a, 'x) eio = "'x world \<Rightarrow> ('e + 'a) \<times> 'x world"

type_synonym ('a, 'x) io = "(jserror, 'a, 'x) eio"

definition io_return :: "'a \<Rightarrow> ('e, 'a, 'x) eio" where
  "io_return a s = (Inr a, s)"

definition io_throw :: "'e \<Rightarrow> ('e, 'a, 'x) eio" where
  "io_throw e s = (Inl e, s)"

definition io_bind :: "('e, 'a, 'x) eio \<Rightarrow> ('a \<Rightarrow> ('e, 'b, 'x) eio) \<Rightarrow> ('e, 'b, 'x) eio" where
  "io_bind m f s = (case m s of (Inl e, s') \<Rightarrow> (Inl e, s') | (Inr a, s') \<Rightarrow> f a s')"

text \<open>The value or the exception of a constructor call or of a property read.\<close>

definition io_lift :: "'e + 'a \<Rightarrow> ('e, 'a, 'x) eio" where
  "io_lift r s = (r, s)"

text \<open>\<open>try { m } catch (error) { h error }\<close>\<close>

definition try_catch ::
  "('e, 'a, 'x) eio \<Rightarrow> ('e \<Rightarrow> ('f, 'a, 'x) eio) \<Rightarrow> ('f, 'a, 'x) eio" where
  "try_catch m h s = (case m s of (Inl e, s') \<Rightarrow> h e s' | (Inr a, s') \<Rightarrow> (Inr a, s'))"

text \<open>
  \<open>try { m } finally { f }\<close>: the outcome of \<open>m\<close> is kept unless \<open>f\<close> itself throws, in which
  case the error of \<open>f\<close> replaces it.
\<close>

definition try_finally :: "('e, 'a, 'x) eio \<Rightarrow> ('e, unit, 'x) eio \<Rightarrow> ('e, 'a, 'x) eio" where
  "try_finally m f s =
     (case m s of (r, s') \<Rightarrow>
        (case f s' of (Inl e, s'') \<Rightarrow> (Inl e, s'') | (Inr u, s'') \<Rightarrow> (r, s'')))"

definition emit :: "event \<Rightarrow> ('e, unit, 'x) eio" where
  "emit e s = (Inr (), s\<lparr> trace := trace s @ [e] \<rparr>)"

text \<open>Reading the clock or the memory counters does not change the world.\<close>

definition io_read :: "('x \<Rightarrow> 'a) \<Rightarrow> ('e, 'a, 'x) eio" where
  "io_read g s = (Inr (g (ext s)), s)"

text \<open>
  Awaiting a repository operation: the operation runs on \<open>ext\<close>; the call and the way it
  settled are traced.
\<close>

definition await_repo :: "repo_op \<Rightarrow> ('x \<Rightarrow> (thrown + 'a) \<times> 'x) \<Rightarrow> (thrown, 'a, 'x) eio" where
  "await_repo op f s =
     (case f (ext s) of
        (Inr a, x') \<Rightarrow> (Inr a, s\<lparr> ext := x', trace := trace s @ [Call op, Resolved op] \<rparr>)
      | (Inl e, x') \<Rightarrow> (Inl e, s\<lparr> ext := x', trace := trace s @ [Call op, Rejected op e] \<rparr>))"

text \<open>
  A call of a logger method (shared/logger/Logger.ts): the method and its arguments are
  traced; what reaches the console depends on the logger's level and is not modelled, and the
  rendering is taken not to throw.
\<close>

definition logger :: "string \<Rightarrow> message \<Rightarrow> ('e, unit, 'x) eio" where
  "logger method args = emit (Log method args)"

subsection \<open>The collaborators\<close>

datatype InputValue = IVNum int | IVStr string | IVArr "InputValue list"

type_synonym Inputs = "(string \<times> InputValue) list"

record 'x env =
  performance_now :: "'x \<Rightarrow> number"
  process_memoryUsage :: "'x \<Rightarrow> NodeMemoryUsage"
  Date_now :: "'x \<Rightarrow> number"
  process_version :: string
  process_platform :: string
  setTimeout :: "number \<Rightarrow> 'x \<Rightarrow> 'x"
  circuitRepository_exists :: "string \<Rightarrow> 'x \<Rightarrow> (thrown + bool) \<times> 'x"
  circuitRepository_load :: "string \<Rightarrow> 'x \<Rightarrow> (thrown + Circuit) \<times> 'x"
  circuitRepository_getTestInputs :: "string \<Rightarrow> 'x \<Rightarrow> (thrown + Inputs) \<times> 'x"
  proofSystemRepository_initialize :: "Circuit \<Rightarrow> 'x \<Rightarrow> (thrown + unit) \<times> 'x"
  proofSystemRepository_generateWitness :: "Circuit \<Rightarrow> Inputs \<Rightarrow> 'x \<Rightarrow> (thrown + Witness) \<times> 'x"
  proofSystemRepository_generateProof :: "Witness \<Rightarrow> 'x \<Rightarrow> (thrown + ProofResult) \<times> 'x"
  proofSystemRepository_verifyProof :: "ProofResult \<Rightarrow> 'x \<Rightarrow> (thrown + bool) \<times> 'x"
  proofSystemRepository_cleanup :: "'x \<Rightarrow> (thrown + unit) \<times> 'x"

section \<open>CircuitService\<close>

definition loadCircuit :: "'x env \<Rightarrow> string \<Rightarrow> (Circuit, 'x) io" where
  "loadCircuit env circuitName' =
     io_bind (logger ''debug'' [Str ''Loading circuit: '', Str circuitName']) (\<lambda>_.
     try_catch
       (io_bind (await_repo Exists (circuitRepository_exists env circuitName')) (\<lambda>exists.
          if \<not> exists then io_throw (ErrorObject (new_CircuitNotFoundError circuitName' None))
          else
            io_bind (await_repo Load (circuitRepository_load env circuitName')) (\<lambda>circuit.
            io_bind (logger ''debug''
                       [Str ''Circuit loaded successfully: '', Str (Circuit.name circuit),
                        Str '' ('', Num (Circuit.constraints circuit), Str '' constraints)''])
              (\<lambda>_. io_return circuit))))
       (\<lambda>error.
          case error of
            ErrorObject e \<Rightarrow>
              if err_class e = CircuitNotFoundError then io_throw e
              else io_throw (new_CircuitLoadError [Str circuitName'] (asCause error))
          | _ \<Rightarrow> io_throw (new_CircuitLoadError [Str circuitName'] (asCause error))))"

definition getTestInputs :: "'x env \<Rightarrow> string \<Rightarrow> (Inputs, 'x) io" where
  "getTestInputs env circuitName' =
     io_bind (logger ''debug'' [Str ''Loading test inputs for circuit: '', Str circuitName']) (\<lambda>_.
     try_catch
       (await_repo GetTestInputs (circuitRepository_getTestInputs env circuitName'))
       (\<lambda>error.
          io_throw (new_CircuitLoadError
                      [Str ''Failed to load test inputs for '', Str circuitName']
                      (asCause error))))"

section \<open>ProofService\<close>

definition initialize :: "'x env \<Rightarrow> Circuit \<Rightarrow> (unit, 'x) io" where
  "initialize env circuit =
     io_bind (logger ''debug''
                [Str ''Initializing proof system for circuit: '', Str (Circuit.name circuit)]) (\<lambda>_.
     try_catch
       (io_bind (await_repo Initialize (proofSystemRepository_initialize env circuit)) (\<lambda>_.
          logger ''debug'' [Str ''Proof system initialized successfully'']))
       (\<lambda>error.
          io_throw (new_ProofGenerationError
                      [Str ''Failed to initialize proof system''] (asCause error))))"

definition generateWitness :: "'x env \<Rightarrow> Circuit \<Rightarrow> Inputs \<Rightarrow> (Witness, 'x) io" where
  "generateWitness env circuit inputs =
     io_bind (logger ''debug''
                [Str ''Generating witness for circuit: '', Str (Circuit.name circuit)]) (\<lambda>_.
     try_catch
       (io_bind (await_repo GenerateWitness
                   (proofSystemRepository_generateWitness env circuit inputs)) (\<lambda>witness.
        io_bind (logger ''debug''
                   [Str ''Witness generated successfully: '', Num (Witness_size witness),
                    Str '' bytes in '', Num (Witness.generationTimeMs witness), Str ''ms''])
          (\<lambda>_. io_return witness)))
       (\<lambda>error.
          io_throw (new_WitnessGenerationError
                      [Str ''Failed to generate witness for circuit '', Str (Circuit.name circuit)]
                      (asCause error))))"

definition generateProof :: "'x env \<Rightarrow> Witness \<Rightarrow> (ProofResult, 'x) io" where
  "generateProof env witness =
     io_bind (logger ''debug''
                [Str ''Generating proof from witness ('', Num (Witness_size witness),
                 Str '' bytes)'']) (\<lambda>_.
     try_catch
       (io_bind (await_repo GenerateProof
                   (proofSystemRepository_generateProof env witness)) (\<lambda>proofResult.
        io_bind (logger ''debug''
                   [Str ''Proof generated successfully: '', Num (ProofResult_proofSize proofResult),
                    Str '' bytes in '', Num (ProofResult.generationTimeMs proofResult),
                    Str ''ms''])
          (\<lambda>_. io_return proofResult)))
       (\<lambda>error.
          io_throw (new_ProofGenerationError
                      [Str ''Failed to generate proof from witness''] (asCause error))))"

definition verifyProof :: "'x env \<Rightarrow> ProofResult \<Rightarrow> (bool, 'x) io" where
  "verifyProof env proofResult =
     io_bind (logger ''debug''
                [Str ''Verifying proof ('', Num (ProofResult_proofSize proofResult),
                 Str '' bytes)'']) (\<lambda>_.
     try_catch
       (io_bind (await_repo VerifyProof
                   (proofSystemRepository_verifyProof env proofResult)) (\<lambda>verified'.
        io_bind (logger ''debug''
                   [Str ''Proof verification '',
                    Str (if verified' then ''succeeded'' else ''failed'')])
          (\<lambda>_. io_return verified')))
       (\<lambda>error.
          io_throw (new_ProofVerificationError [Str ''Failed to verify proof'']
                      (asCause error))))"

text \<open>
  The \<open>catch\<close> clause of \<open>cleanup\<close> reads the message of the caught value before it logs: on
  \<open>undefined\<close> or \<open>null\<close> the read throws, and the \<open>TypeError\<close> leaves \<open>cleanup\<close>.
\<close>

definition cleanup :: "'x env \<Rightarrow> (unit, 'x) io" where
  "cleanup env =
     io_bind (logger ''debug'' [Str ''Cleaning up proof system resources'']) (\<lambda>_.
     try_catch
       (io_bind (await_repo Cleanup (proofSystemRepository_cleanup env)) (\<lambda>_.
          logger ''debug'' [Str ''Proof system cleanup completed'']))
       (\<lambda>error.
          io_bind (io_lift (messageOf error)) (\<lambda>message'.
          logger ''warn'' (Str ''Error during proof system cleanup:'' # message'))))"

section \<open>PerformanceProfiler\<close>

record 'a StageResult =
  stage :: string
  timeMs :: number
  memoryBefore :: NodeMemoryUsage
  memoryAfter :: NodeMemoryUsage
  memoryDelta :: MemoryFields
  result :: 'a

text \<open>The observer exists exactly while \<open>isObserving\<close> holds.\<close>

definition startObserving :: "(unit, 'x) io" where
  "startObserving s =
     (if isObserving s then (Inr (), s)
      else (Inr (), s\<lparr> trace := trace s @ [Observe], isObserving := True \<rparr>))"

definition stopObserving :: "(unit, 'x) io" where
  "stopObserving s =
     (if isObserving s
      then (Inr (), s\<lparr> trace := trace s @ [Disconnect], isObserving := False \<rparr>)
      else (Inr (), s))"

text \<open>
  \<open>timeStage\<close>. The operations that the orchestrator passes are calls of the services, which
  throw error objects only. The \<open>catch\<close> clause reads the clock first; the error that it
  caught is recorded in the trace at that point.
\<close>

definition timeStage :: "'x env \<Rightarrow> string \<Rightarrow> ('a, 'x) io \<Rightarrow> ('a StageResult, 'x) io" where
  "timeStage env stageName asyncFn =
     (let startMark = stageName @ ''-start''; endMark = stageName @ ''-end'' in
      io_bind (io_read (process_memoryUsage env)) (\<lambda>memoryBefore'.
      io_bind (io_read (performance_now env)) (\<lambda>startTime.
      io_bind (emit (Mark startMark)) (\<lambda>_.
      try_catch
        (io_bind asyncFn (\<lambda>result'.
         io_bind (io_read (performance_now env)) (\<lambda>endTime.
         io_bind (io_read (process_memoryUsage env)) (\<lambda>memoryAfter'.
         io_bind (emit (Mark endMark)) (\<lambda>_.
         io_bind (emit (Measure stageName startMark endMark)) (\<lambda>_.
         io_return
           \<lparr> stage = stageName,
             StageResult.timeMs = endTime - startTime,
             memoryBefore = memoryBefore',
             memoryAfter = memoryAfter',
             memoryDelta =
               \<lparr> heapUsed = heapUsed memoryAfter' - heapUsed memoryBefore',
                 heapTotal = heapTotal memoryAfter' - heapTotal memoryBefore',
                 external = external memoryAfter' - external memoryBefore',
                 rss = rss memoryAfter' - rss memoryBefore' \<rparr>,
             result = result' \<rparr>))))))
        (\<lambda>error.
         io_bind (io_read (performance_now env)) (\<lambda>endTime.
         io_bind (emit (StageThrew stageName startTime endTime error)) (\<lambda>_.
         io_bind (io_read (process_memoryUsage env)) (\<lambda>_.
         io_bind (emit (Mark endMark)) (\<lambda>_.
         io_bind (emit (Measure stageName startMark endMark)) (\<lambda>_.
         io_throw
           (new_Error
              ([Str ''Stage '', Str stageName, Str '' failed after '',
                Num (endTime - startTime), Str ''ms: ''] @ err_message error))))))))))))"

section \<open>BenchmarkOrchestrator\<close>

record BenchmarkConfiguration =
  circuitName :: string
  backend :: string
  runs :: number
  threads :: number
  verbose :: bool

definition Math_round :: "number \<Rightarrow> number" where
  "Math_round x = of_int \<lfloor>x + 1 / 2\<rfloor>"

text \<open>
  \<open>Math.max(...xs)\<close>. On no argument JavaScript returns \<open>-Infinity\<close>, which is no real; the
  only call passes the five stages of a run.
\<close>

definition Math_max :: "number list \<Rightarrow> number" where
  "Math_max xs = fold max (tl xs) (hd xs)"

definition formatMemoryMB :: "number \<Rightarrow> number" where
  "formatMemoryMB bytes = Math_round (bytes / 1024 / 1024)"

definition sleep :: "'x env \<Rightarrow> number \<Rightarrow> (unit, 'x) io" where
  "sleep env ms s =
     (Inr (), s\<lparr> ext := setTimeout env ms (ext s), trace := trace s @ [Sleep ms] \<rparr>)"

definition convertToStage :: "'a StageResult \<Rightarrow> jserror + BenchmarkStage" where
  "convertToStage stageResult =
     (let memoryUsage' =
            \<lparr> before = memoryBefore stageResult,
              after = memoryAfter stageResult,
              delta = memoryDelta stageResult \<rparr>
      in new_BenchmarkStage (stage stageResult) (StageResult.timeMs stageResult)
           memoryUsage' True None)"

text \<open>
  The \<open>if (config.verbose) ... else ...\<close> block that follows each of the five stages of
  \<open>executeSingleRun\<close>; the five blocks differ in their two labels only.
\<close>

definition reportStage ::
  "BenchmarkConfiguration \<Rightarrow> string \<Rightarrow> string \<Rightarrow> 'a StageResult \<Rightarrow> (unit, 'x) io" where
  "reportStage config verboseLabel label stageResult =
     (if verbose config
      then logger ''stageProgress''
             [Str verboseLabel, Num 100, Num (Math_round (StageResult.timeMs stageResult)),
              Num (formatMemoryMB (heapUsed (memoryAfter stageResult))), Str ''true'']
      else logger ''benchmark''
             [Str label, Num (Math_round (StageResult.timeMs stageResult)),
              Num (formatMemoryMB (heapUsed (memoryAfter stageResult)))])"

text \<open>
  One run. The array \<open>stages\<close> grows by one entry after each stage; it is passed on as the
  list of the entries pushed so far. The emoji that open two of the labels are left out.
\<close>

definition executeSingleRun :: "'x env \<Rightarrow> BenchmarkConfiguration \<Rightarrow> (BenchmarkResult, 'x) io" where
  "executeSingleRun env config =
     io_bind (logger ''status'' [Str ''running'', Str ''Loading circuit...'']) (\<lambda>_.
     io_bind (timeStage env ''circuit-load''
                (loadCircuit env (BenchmarkConfiguration.circuitName config))) (\<lambda>loadResult.
     io_bind (io_lift (convertToStage loadResult)) (\<lambda>stage1.
     io_bind (reportStage config ''Circuit Loading'' ''Circuit Load'' loadResult) (\<lambda>_.
     let circuit = result loadResult in
     io_bind (getTestInputs env (BenchmarkConfiguration.circuitName config)) (\<lambda>inputs.
     io_bind (logger ''status'' [Str ''running'', Str ''Initializing backend...'']) (\<lambda>_.
     io_bind (timeStage env ''backend-init''
                (io_bind (initialize env circuit) (\<lambda>_. io_return True))) (\<lambda>initResult.
     io_bind (io_lift (convertToStage initResult)) (\<lambda>stage2.
     io_bind (reportStage config ''Backend Initialization'' ''Backend Init'' initResult) (\<lambda>_.
     io_bind (logger ''status'' [Str ''running'', Str ''Generating witness...'']) (\<lambda>_.
     io_bind (timeStage env ''witness-generate''
                (generateWitness env circuit inputs)) (\<lambda>witnessResult.
     io_bind (io_lift (convertToStage witnessResult)) (\<lambda>stage3.
     io_bind (reportStage config ''Witness Generation'' ''Witness Generation'' witnessResult) (\<lambda>_.
     let witness = result witnessResult in
     io_bind (logger ''status''
                [Str ''running'', Str ''Generating proof (THE MAIN EVENT)...'']) (\<lambda>_.
     io_bind (timeStage env ''proof-generate'' (generateProof env witness)) (\<lambda>proofResult.
     io_bind (io_lift (convertToStage proofResult)) (\<lambda>stage4.
     io_bind (reportStage config ''Proof Generation (THE MAIN EVENT)'' ''Proof Generation''
                proofResult) (\<lambda>_.
     let proof' = result proofResult in
     io_bind (logger ''status'' [Str ''running'', Str ''Verifying proof...'']) (\<lambda>_.
     io_bind (timeStage env ''proof-verify'' (verifyProof env proof')) (\<lambda>verifyResult.
     io_bind (io_lift (convertToStage verifyResult)) (\<lambda>stage5.
     io_bind (reportStage config ''Proof Verification'' ''Proof Verify'' verifyResult) (\<lambda>_.
     if \<not> result verifyResult then io_throw (new_Error [Str ''Proof verification failed''])
     else
       let stages' = [stage1, stage2, stage3, stage4, stage5];
           totalTime = fold (\<lambda>stage sum. sum + BenchmarkStage.timeMs stage) stages' 0;
           peakMemory = Math_max (map (\<lambda>s. heapUsed (after (memoryUsage s))) stages');
           totals' =
             \<lparr> BenchmarkTotals.timeMs = totalTime,
               memoryPeak = peakMemory,
               proofSize = ProofResult_proofSize proof',
               witnessSize = Witness_size witness \<rparr>;
           metadata' =
             \<lparr> BenchmarkMetadata.constraints = Circuit.constraints circuit,
               BenchmarkMetadata.bytecodeSize = Circuit.bytecodeSize circuit,
               BenchmarkMetadata.threads = BenchmarkConfiguration.threads config,
               BenchmarkMetadata.runs = 1,
               nodeVersion = process_version env,
               platform = process_platform env \<rparr>
       in
       io_bind (io_read (Date_now env)) (\<lambda>now.
       io_lift (new_BenchmarkResult (BenchmarkConfiguration.circuitName config)
                  (BenchmarkConfiguration.backend config) stages' totals' metadata' now))
     )))))))))))))))))))))"

text \<open>
  \<open>results.reduce((sum, r) => sum + r.stages[index].timeMs, 0)\<close>: reading \<open>timeMs\<close> of a
  missing entry is a \<open>TypeError\<close>.
\<close>

fun sumStageTimes :: "BenchmarkResult list \<Rightarrow> nat \<Rightarrow> number \<Rightarrow> jserror + number" where
  "sumStageTimes [] index acc = Inr acc"
| "sumStageTimes (r # rs) index acc =
     (if index < length (stages r)
      then sumStageTimes rs index (acc + BenchmarkStage.timeMs (stages r ! index))
      else Inl (cannotRead ''undefined'' ''timeMs''))"

text \<open>
  The callback of \<open>firstResult.stages.map\<close> in \<open>aggregateResults\<close>, and the map itself, which
  stops at the first exception. The sums and the quotients of the aggregation, as all the
  arithmetic above, are those of the reals; the program computes them in doubles, which round
  (see \<open>avgTimeMs_double\<close> below).
\<close>

definition avgStage :: "BenchmarkResult list \<Rightarrow> BenchmarkStage \<Rightarrow> nat \<Rightarrow> jserror + BenchmarkStage" where
  "avgStage results stage' index =
     (case sumStageTimes results index 0 of
        Inl e \<Rightarrow> Inl e
      | Inr acc \<Rightarrow>
          let avgTimeMs = acc / real (length results)
          in new_BenchmarkStage (BenchmarkStage.name stage') avgTimeMs (memoryUsage stage')
               (success stage') (BenchmarkStage.error stage'))"

fun avgStages :: "BenchmarkResult list \<Rightarrow> BenchmarkStage list \<Rightarrow> nat \<Rightarrow> jserror + BenchmarkStage list" where
  "avgStages results [] index = Inr []"
| "avgStages results (stage' # rest) index =
     (case avgStage results stage' index of
        Inl e \<Rightarrow> Inl e
      | Inr st \<Rightarrow>
          (case avgStages results rest (Suc index) of
             Inl e \<Rightarrow> Inl e
           | Inr sts \<Rightarrow> Inr (st # sts)))"

definition aggregateResults ::
  "'x env \<Rightarrow> BenchmarkResult list \<Rightarrow> BenchmarkConfiguration \<Rightarrow> (BenchmarkResult, 'x) io" where
  "aggregateResults env results config =
     (if length results = 1 then io_return (results ! 0)
      else
        (case results of
           [] \<Rightarrow> io_throw (cannotRead ''undefined'' ''stages'')
         | firstResult # _ \<Rightarrow>
             let avgTotalTime =
                   fold (\<lambda>r sum. sum + BenchmarkTotals.timeMs (totals r)) results 0
                     / real (length results);
                 avgMemoryPeak =
                   fold (\<lambda>r sum. sum + memoryPeak (totals r)) results 0
                     / real (length results)
             in
             io_bind (io_lift (avgStages results (stages firstResult) 0)) (\<lambda>avgStages'.
             let avgTotals =
                   \<lparr> BenchmarkTotals.timeMs = avgTotalTime,
                     memoryPeak = avgMemoryPeak,
                     proofSize = proofSize (totals firstResult),
                     witnessSize = witnessSize (totals firstResult) \<rparr>;
                 metadata' =
                   (metadata firstResult)\<lparr> BenchmarkMetadata.runs := real (length results) \<rparr>
             in
             io_bind (io_read (Date_now env)) (\<lambda>now.
             io_lift (new_BenchmarkResult (BenchmarkConfiguration.circuitName config)
                        (BenchmarkConfiguration.backend config) avgStages' avgTotals metadata'
                        now)))))"

text \<open>
  The \<open>for\<close> loop of \<open>executeBenchmark\<close>, from the counter \<open>i\<close> and the results pushed so far.
  An exception of a run leaves the loop. \<open>config.runs\<close> is a number, not necessarily whole: the
  loop makes as many runs as there are naturals below it. The emoji that opens the
  \<open>Run i/n\<close> line is left out.
\<close>

function runLoop ::
  "'x env \<Rightarrow> BenchmarkConfiguration \<Rightarrow> nat \<Rightarrow> BenchmarkResult list \<Rightarrow> (BenchmarkResult list, 'x) io" where
  "runLoop env config i allResults s =
     (if real i < BenchmarkConfiguration.runs config then
        (case (if BenchmarkConfiguration.runs config > 1
               then logger ''info''
                      [Str ''Run '', Num (real i + 1), Str ''/'',
                       Num (BenchmarkConfiguration.runs config)]
               else io_return ()) s of
           (Inl e, s1) \<Rightarrow> (Inl e, s1)
         | (Inr u, s1) \<Rightarrow>
             (case executeSingleRun env config s1 of
                (Inl e, s2) \<Rightarrow> (Inl e, s2)
              | (Inr runResult, s2) \<Rightarrow>
                  (case (if real i < BenchmarkConfiguration.runs config - 1
                         then sleep env 100 else io_return ()) s2 of
                     (Inl e, s3) \<Rightarrow> (Inl e, s3)
                   | (Inr u', s3) \<Rightarrow>
                       runLoop env config (Suc i) (allResults @ [runResult]) s3)))
      else (Inr allResults, s))"
  by pat_completeness auto
termination
  by (relation "measure (\<lambda>(env, config, i, allResults, s).
                  nat \<lceil>BenchmarkConfiguration.runs config\<rceil> - i)") (auto, linarith)

declare runLoop.simps [simp del]

text \<open>The \<open>try\<close> block of \<open>executeBenchmark\<close> with its \<open>catch\<close> clause.\<close>

definition executeBenchmark_try ::
  "'x env \<Rightarrow> BenchmarkConfiguration \<Rightarrow> (BenchmarkResult, 'x) io" where
  "executeBenchmark_try env config =
     try_catch
       (io_bind (if verbose config then startObserving else io_return ()) (\<lambda>_.
        io_bind (runLoop env config 0 []) (\<lambda>allResults.
        io_bind (aggregateResults env allResults config) (\<lambda>finalResult.
        io_bind (logger ''status'' [Str ''complete'', Str ''Benchmark completed successfully''])
          (\<lambda>_. io_return finalResult)))))
       (\<lambda>error.
          io_bind (logger ''status''
                     (Str ''error'' # Str ''Benchmark failed: '' # err_message error)) (\<lambda>_.
          io_throw error))"

text \<open>\<open>executeBenchmark\<close>: the \<open>try\<close> and \<open>catch\<close> above, and the \<open>finally\<close> block.\<close>

definition executeBenchmark ::
  "'x env \<Rightarrow> BenchmarkConfiguration \<Rightarrow> (BenchmarkResult, 'x) io" where
  "executeBenchmark env config =
     try_finally (executeBenchmark_try env config)
       (io_bind stopObserving (\<lambda>_. cleanup env))"

section \<open>Double arithmetic\<close>




section \<open>Vocabulary of the statements\<close>

text \<open>
  The arithmetic mean, as the specification words it, and the mean over the runs of the time
  of the stage at one index.
\<close>

definition mean :: "real list \<Rightarrow> real" where
  "mean xs = sum_list xs / real (length xs)"

definition meanStageTime :: "BenchmarkResult list \<Rightarrow> nat \<Rightarrow> real" where
  "meanStageTime rs i = mean (map (\<lambda>r. BenchmarkStage.timeMs (stages r ! i)) rs)"

text \<open>
  The world in which the loop of \<open>executeBenchmark\<close> starts (after \<open>startObserving\<close>, when
  the configuration is verbose), the world in which run \<open>i\<close> starts (after the \<open>Run i/n\<close>
  line, when there are several runs) and the world in which the iteration ends (after the
  pause, unless the run was the last).
\<close>

definition observed :: "BenchmarkConfiguration \<Rightarrow> 'x world \<Rightarrow> 'x world" where
  "observed config s = snd ((if verbose config then startObserving else io_return ()) s)"

definition beforeRun :: "BenchmarkConfiguration \<Rightarrow> nat \<Rightarrow> 'x world \<Rightarrow> 'x world" where
  "beforeRun config i s =
     (if BenchmarkConfiguration.runs config > 1
      then s\<lparr> trace := trace s @ [Log ''info'' [Str ''Run '', Num (real i + 1), Str ''/'',
                       Num (BenchmarkConfiguration.runs config)]] \<rparr>
      else s)"

definition afterRun :: "'x env \<Rightarrow> BenchmarkConfiguration \<Rightarrow> nat \<Rightarrow> 'x world \<Rightarrow> 'x world" where
  "afterRun env config i s =
     (if real i < BenchmarkConfiguration.runs config - 1
      then s\<lparr> ext := setTimeout env 100 (ext s), trace := trace s @ [Sleep 100] \<rparr>
      else s)"

text \<open>
  The stage in which a repository operation runs (none for the two operations that run
  outside the stages), and the reading of an error thrown by the profiler: the stage name, the
  elapsed time and the message that its text carries.
\<close>

fun stageOf :: "repo_op \<Rightarrow> string" where
  "stageOf Exists = ''circuit-load''"
| "stageOf Load = ''circuit-load''"
| "stageOf Initialize = ''backend-init''"
| "stageOf GenerateWitness = ''witness-generate''"
| "stageOf GenerateProof = ''proof-generate''"
| "stageOf VerifyProof = ''proof-verify''"
| "stageOf GetTestInputs = ''''"
| "stageOf Cleanup = ''''"

fun stageFailureOf :: "jserror \<Rightarrow> (string \<times> number \<times> message) option" where
  "stageFailureOf (JSError Error (Str a # Str n # Str b # Num t # Str c # m) None None) =
     (if a = ''Stage '' \<and> b = '' failed after '' \<and> c = ''ms: '' then Some (n, t, m) else None)"
| "stageFailureOf e = None"

text \<open>
  The line that \<open>ProofService.verifyProof\<close> logs when the repository resolves to \<open>false\<close>.
\<close>

definition verificationFailedLog :: event where
  "verificationFailedLog = Log ''debug'' [Str ''Proof verification '', Str ''failed'']"

text \<open>
  The events of a completed run other than its log lines, and the events of the \<open>finally\<close>
  block of \<open>executeBenchmark\<close>: the observer is disconnected if there is one, the cleanup is
  called, and it resolves or is rejected with an error that is logged as a warning.
\<close>

fun isLog :: "event \<Rightarrow> bool" where
  "isLog (Log m a) = True"
| "isLog ev = False"

definition runEvents :: "event list" where
  "runEvents =
     [Mark ''circuit-load-start'', Call Exists, Resolved Exists, Call Load, Resolved Load,
      Mark ''circuit-load-end'', Measure ''circuit-load'' ''circuit-load-start'' ''circuit-load-end'',
      Call GetTestInputs, Resolved GetTestInputs,
      Mark ''backend-init-start'', Call Initialize, Resolved Initialize,
      Mark ''backend-init-end'', Measure ''backend-init'' ''backend-init-start'' ''backend-init-end'',
      Mark ''witness-generate-start'', Call GenerateWitness, Resolved GenerateWitness,
      Mark ''witness-generate-end'',
      Measure ''witness-generate'' ''witness-generate-start'' ''witness-generate-end'',
      Mark ''proof-generate-start'', Call GenerateProof, Resolved GenerateProof,
      Mark ''proof-generate-end'',
      Measure ''proof-generate'' ''proof-generate-start'' ''proof-generate-end'',
      Mark ''proof-verify-start'', Call VerifyProof, Resolved VerifyProof,
      Mark ''proof-verify-end'',
      Measure ''proof-verify'' ''proof-verify-start'' ''proof-verify-end'']"

definition cleanupEvents :: "bool \<Rightarrow> thrown option \<Rightarrow> event list" where
  "cleanupEvents observing rejection =
     (if observing then [Disconnect] else [])
     @ [Log ''debug'' [Str ''Cleaning up proof system resources''], Call Cleanup]
     @ (case rejection of
          None \<Rightarrow> [Resolved Cleanup, Log ''debug'' [Str ''Proof system cleanup completed'']]
        | Some v \<Rightarrow>
            Rejected Cleanup v #
            (case messageOf v of
               Inl e \<Rightarrow> []
             | Inr m \<Rightarrow> [Log ''warn'' (Str ''Error during proof system cleanup:'' # m)]))"

definition cleanupRejection :: "'x env \<Rightarrow> 'x \<Rightarrow> thrown option" where
  "cleanupRejection env x =
     (case fst (proofSystemRepository_cleanup env x) of Inl v \<Rightarrow> Some v | Inr u \<Rightarrow> None)"

text \<open>
  The outcome of a session whose \<open>try\<close> block, with its \<open>catch\<close>, ended with \<open>out\<close>: the error
  that leaves the cleanup, if one does, takes its place.
\<close>

definition afterCleanup :: "thrown option \<Rightarrow> jserror + 'a \<Rightarrow> jserror + 'a" where
  "afterCleanup rejection out =
     (case rejection of
        None \<Rightarrow> out
      | Some v \<Rightarrow> (case messageOf v of Inl e \<Rightarrow> Inl e | Inr m \<Rightarrow> out))"

text \<open>
  Two properties of an environment. Its clock is monotonic when no repository operation and
  no pause sets it back, as \<open>performance.now()\<close> promises. Its cleanup is rejected readably
  when the value of the rejection, if there is one, is neither \<open>undefined\<close> nor \<open>null\<close>.
\<close>

definition monotonicClock :: "'x env \<Rightarrow> bool" where
  "monotonicClock env =
     (\<forall>x.
        (\<forall>n. performance_now env x \<le> performance_now env (snd (circuitRepository_exists env n x)))
      \<and> (\<forall>n. performance_now env x \<le> performance_now env (snd (circuitRepository_load env n x)))
      \<and> (\<forall>n. performance_now env x
                \<le> performance_now env (snd (circuitRepository_getTestInputs env n x)))
      \<and> (\<forall>c. performance_now env x
                \<le> performance_now env (snd (proofSystemRepository_initialize env c x)))
      \<and> (\<forall>c i. performance_now env x
                \<le> performance_now env (snd (proofSystemRepository_generateWitness env c i x)))
      \<and> (\<forall>w. performance_now env x
                \<le> performance_now env (snd (proofSystemRepository_generateProof env w x)))
      \<and> (\<forall>p. performance_now env x
                \<le> performance_now env (snd (proofSystemRepository_verifyProof env p x)))
      \<and> performance_now env x \<le> performance_now env (snd (proofSystemRepository_cleanup env x))
      \<and> (\<forall>ms. 0 \<le> ms \<longrightarrow> performance_now env x \<le> performance_now env (setTimeout env ms x)))"

definition readableCleanup :: "'x env \<Rightarrow> bool" where
  "readableCleanup env =
     (\<forall>x. fst (proofSystemRepository_cleanup env x) \<noteq> Inl UndefinedValue
        \<and> fst (proofSystemRepository_cleanup env x) \<noteq> Inl NullValue)"

text \<open>
  An invariant of the \<open>try\<close> block of a session. Four kinds of events matter: a rejected
  repository operation other than the cleanup, an error caught by the profiler, the log line
  of a failed verification and a call of the cleanup. A computation is guarded when it only
  appends to the trace and every such event that it appends is explained by the error it
  throws: an error caught by the profiler by the error that the profiler makes of it (the
  stage, the time from the start of the stage to the catch, the message of the caught
  error), a rejection in a stage by an error of the profiler that names the stage, a rejection
  of the test inputs by the \<open>CircuitLoadError\<close> that wraps it, a failed verification by the
  error that the orchestrator throws after it, or, unless the clock is known not to run
  backwards over a verification (\<open>fwd\<close>), by the error of the stage record that is made in
  between; a call of the cleanup is never explained.
\<close>

fun relevant :: "event \<Rightarrow> bool" where
  "relevant (Call op) = (op = Cleanup)"
| "relevant (Rejected op v) = (op \<noteq> Cleanup)"
| "relevant (StageThrew n t0 t1 e) = True"
| "relevant (Log m a) = (Log m a = verificationFailedLog)"
| "relevant ev = False"

fun explains :: "bool \<Rightarrow> string \<Rightarrow> event \<Rightarrow> jserror \<Rightarrow> bool" where
  "explains fwd cn (Rejected op v) e' =
     (if op = GetTestInputs
      then e' = new_CircuitLoadError [Str ''Failed to load test inputs for '', Str cn]
                  (asCause v)
      else map_option fst (stageFailureOf e') = Some (stageOf op))"
| "explains fwd cn (StageThrew n t0 t1 e) e' =
     (e' = new_Error ([Str ''Stage '', Str n, Str '' failed after '', Num (t1 - t0),
                       Str ''ms: ''] @ err_message e))"
| "explains fwd cn (Log m a) e' =
     (e' = new_Error [Str ''Proof verification failed'']
      \<or> \<not> fwd \<and> e' = new_Error [Str ''Stage time cannot be negative''])"
| "explains fwd cn ev e' = False"

definition guarded :: "(event \<Rightarrow> jserror \<Rightarrow> bool) \<Rightarrow> ('a, 'x) io \<Rightarrow> bool" where
  "guarded E m =
     (\<forall>s. \<exists>d. trace (snd (m s)) = trace s @ d
              \<and> (\<forall>ev \<in> set d. relevant ev \<longrightarrow> (\<exists>e. fst (m s) = Inl e \<and> E ev e)))"

section \<open>A stubbed environment\<close>

text \<open>
  Deterministic collaborators for concrete runs. The external state is the clock, in
  milliseconds. The used heap grows with the clock. Checking that the circuit exists takes
  1 ms and loading it 4 ms, fetching the test inputs 7 ms, initializing the backend 2 ms,
  generating the witness 16 ms and the proof 809 ms, verifying 150 ms, the cleanup 3 ms;
  \<open>verdict\<close> is what the verification resolves to.
\<close>

definition stub_memory :: "real \<Rightarrow> NodeMemoryUsage" where
  "stub_memory t =
     \<lparr> heapUsed = 1000 + t, heapTotal = 5000, external = 10, rss = 9000, arrayBuffers = 0 \<rparr>"

definition stub_circuit :: Circuit where
  "stub_circuit =
     \<lparr> Circuit.name = ''simple-hash'', bytecode = [1, 2, 3], abi = ''{}'',
       Circuit.constraints = 0, Circuit.bytecodeSize = 3 \<rparr>"

definition stub_witness :: Witness where
  "stub_witness = \<lparr> data = [7, 7], Witness.generationTimeMs = 16 \<rparr>"

definition stub_proof :: ProofResult where
  "stub_proof =
     \<lparr> proof_bytes = [1, 2, 3, 4], publicInputs = [], ProofResult.generationTimeMs = 809,
       verified = False, verificationTimeMs = 0 \<rparr>"

definition stub_env :: "bool \<Rightarrow> real env" where
  "stub_env verdict =
     \<lparr> performance_now = (\<lambda>t. t),
       process_memoryUsage = stub_memory,
       Date_now = (\<lambda>t. t),
       process_version = ''v20.0.0'',
       process_platform = ''linux'',
       setTimeout = (\<lambda>ms t. t + ms),
       circuitRepository_exists = (\<lambda>n t. (Inr True, t + 1)),
       circuitRepository_load = (\<lambda>n t. (Inr stub_circuit, t + 4)),
       circuitRepository_getTestInputs = (\<lambda>n t. (Inr [(''x'', IVNum 1)], t + 7)),
       proofSystemRepository_initialize = (\<lambda>c t. (Inr (), t + 2)),
       proofSystemRepository_generateWitness = (\<lambda>c i t. (Inr stub_witness, t + 16)),
       proofSystemRepository_generateProof = (\<lambda>w t. (Inr stub_proof, t + 809)),
       proofSystemRepository_verifyProof = (\<lambda>p t. (Inr verdict, t + 150)),
       proofSystemRepository_cleanup = (\<lambda>t. (Inr (), t + 3)) \<rparr>"

definition stub_config :: "number \<Rightarrow> BenchmarkConfiguration" where
  "stub_config n =
     \<lparr> BenchmarkConfiguration.circuitName = ''simple-hash'',
       BenchmarkConfiguration.backend = ''UltraHonk'',
       BenchmarkConfiguration.runs = n,
       BenchmarkConfiguration.threads = 1,
       verbose = False \<rparr>"

definition stub_world :: "real world" where
  "stub_world = \<lparr> ext = 0, trace = [], isObserving = False \<rparr>"

text \<open>
  Stubbed environments in which the backend fails to initialize, or the test inputs cannot be
  read, for the given reason; and the error that \<open>ProofService.initialize\<close> throws when the
  backend fails for that reason.
\<close>

definition stub_env_init_fails :: "string \<Rightarrow> real env" where
  "stub_env_init_fails why =
     (stub_env True)\<lparr> proofSystemRepository_initialize :=
        (\<lambda>c t. (Inl (ErrorObject (new_Error [Str why])), t + 2)) \<rparr>"

definition stub_env_inputs_fail :: "string \<Rightarrow> real env" where
  "stub_env_inputs_fail why =
     (stub_env True)\<lparr> circuitRepository_getTestInputs :=
        (\<lambda>n t. (Inl (ErrorObject (new_Error [Str why])), t + 7)) \<rparr>"

definition stub_init_failure :: "string \<Rightarrow> jserror" where
  "stub_init_failure why =
     new_ProofGenerationError [Str ''Failed to initialize proof system'']
       (Some (ErrorObject (new_Error [Str why])))"



text \<open>
  Stubbed environments whose circuit does not exist, and whose cleanup is rejected with the
  given value.
\<close>

definition stub_env_no_circuit :: "real env" where
  "stub_env_no_circuit =
     (stub_env True)\<lparr> circuitRepository_exists := (\<lambda>n t. (Inr False, t + 1)) \<rparr>"


section \<open>Properties\<close>

subsection \<open>Sequencing\<close>

lemmas io_defs = io_return_def io_throw_def io_read_def emit_def logger_def io_lift_def

lemma io_bind_InrE:
  assumes "io_bind m f s = (Inr r, s')"
  obtains a s1 where "m s = (Inr a, s1)" and "f a s1 = (Inr r, s')"
  using assms by (auto simp: io_bind_def split: prod.splits sum.splits)

lemma io_lift_InrE:
  assumes "io_lift x s = (Inr r, s')"
  obtains "x = Inr r" and "s' = s"
  using assms by (auto simp: io_lift_def)

lemma io_bind_simps [simp]:
  "io_bind (io_return a) f s = f a s"
  "io_bind (io_throw e) f s = (Inl e, s)"
  "io_bind (io_read g) f s = f (g (ext s)) s"
  "io_bind (emit ev) f s = f () (s\<lparr> trace := trace s @ [ev] \<rparr>)"
  "io_bind (logger me args) f s = f () (s\<lparr> trace := trace s @ [Log me args] \<rparr>)"
  by (simp_all add: io_bind_def io_defs)

subsection \<open>The profiler and the stage records\<close>

lemma timeStage_eq:
  "timeStage env n op s =
     (case op (s\<lparr> trace := trace s @ [Mark (n @ ''-start'')] \<rparr>) of
        (Inr a, s1) \<Rightarrow>
          (Inr \<lparr> stage = n,
                 StageResult.timeMs = performance_now env (ext s1) - performance_now env (ext s),
                 memoryBefore = process_memoryUsage env (ext s),
                 memoryAfter = process_memoryUsage env (ext s1),
                 memoryDelta =
                   \<lparr> heapUsed = heapUsed (process_memoryUsage env (ext s1))
                                 - heapUsed (process_memoryUsage env (ext s)),
                     heapTotal = heapTotal (process_memoryUsage env (ext s1))
                                  - heapTotal (process_memoryUsage env (ext s)),
                     external = external (process_memoryUsage env (ext s1))
                                 - external (process_memoryUsage env (ext s)),
                     rss = rss (process_memoryUsage env (ext s1))
                            - rss (process_memoryUsage env (ext s)) \<rparr>,
                 result = a \<rparr>,
           s1\<lparr> trace := trace s1 @ [Mark (n @ ''-end''), Measure n (n @ ''-start'') (n @ ''-end'')] \<rparr>)
      | (Inl e, s1) \<Rightarrow>
          (Inl (new_Error ([Str ''Stage '', Str n, Str '' failed after '',
                  Num (performance_now env (ext s1) - performance_now env (ext s)), Str ''ms: '']
                  @ err_message e)),
           s1\<lparr> trace := trace s1 @
                 [StageThrew n (performance_now env (ext s)) (performance_now env (ext s1)) e,
                  Mark (n @ ''-end''), Measure n (n @ ''-start'') (n @ ''-end'')] \<rparr>))"
  by (simp add: timeStage_def Let_def try_catch_def io_bind_def io_defs split: prod.splits sum.splits)

lemma timeStage_Inr:
  assumes "timeStage env n op s = (Inr sr, s')"
  shows "\<exists>s1. op (s\<lparr> trace := trace s @ [Mark (n @ ''-start'')] \<rparr>) = (Inr (result sr), s1)
    \<and> s' = s1\<lparr> trace := trace s1 @ [Mark (n @ ''-end''), Measure n (n @ ''-start'') (n @ ''-end'')] \<rparr>
    \<and> stage sr = n
    \<and> StageResult.timeMs sr = performance_now env (ext s1) - performance_now env (ext s)
    \<and> memoryBefore sr = process_memoryUsage env (ext s)
    \<and> memoryAfter sr = process_memoryUsage env (ext s1)"
  using assms by (auto simp: timeStage_eq split: prod.splits sum.splits)

lemma convertToStage_Inr:
  assumes "convertToStage sr = Inr st"
  shows "BenchmarkStage.name st = stage sr \<and> BenchmarkStage.timeMs st = StageResult.timeMs sr
     \<and> 0 \<le> BenchmarkStage.timeMs st
     \<and> after (memoryUsage st) = memoryAfter sr \<and> before (memoryUsage st) = memoryBefore sr
     \<and> delta (memoryUsage st) = memoryDelta sr \<and> success st \<and> BenchmarkStage.error st = None"
  using assms by (auto simp: convertToStage_def new_BenchmarkStage_def Let_def split: if_splits)

subsection \<open>A completed run\<close>

lemma executeSingleRun_shape:
  assumes "executeSingleRun env config s = (Inr r, s')"
  shows "\<exists>st1 st2 st3 st4 st5. stages r = [st1, st2, st3, st4, st5]
     \<and> map BenchmarkStage.name (stages r) =
          [''circuit-load'', ''backend-init'', ''witness-generate'', ''proof-generate'',
           ''proof-verify'']
     \<and> (\<forall>st \<in> set (stages r). 0 \<le> BenchmarkStage.timeMs st)
     \<and> BenchmarkTotals.timeMs (totals r) =
          fold (\<lambda>stage sum. sum + BenchmarkStage.timeMs stage) (stages r) 0
     \<and> memoryPeak (totals r) = Math_max (map (\<lambda>s. heapUsed (after (memoryUsage s))) (stages r))
     \<and> BenchmarkMetadata.runs (metadata r) = 1"
  using assms
  unfolding executeSingleRun_def Let_def
  apply (elim io_bind_InrE io_lift_InrE)
  apply (simp add: new_BenchmarkResult_def io_defs io_bind_def split: if_splits)
  apply (drule timeStage_Inr convertToStage_Inr)+
  apply clarsimp
  done

subsection \<open>The loop and the aggregation\<close>

lemma fold_add_sum_list: "fold (\<lambda>x (acc::real). acc + f x) xs a = a + sum_list (map f xs)"
  by (induction xs arbitrary: a) auto

lemma sumStageTimes_Inr:
  assumes "\<forall>r \<in> set rs. index < length (stages r)"
  shows "sumStageTimes rs index a =
           Inr (a + sum_list (map (\<lambda>r. BenchmarkStage.timeMs (stages r ! index)) rs))"
  using assms by (induction rs arbitrary: a) auto

lemma meanStageTime_nonneg:
  assumes "\<forall>r \<in> set rs. i < length (stages r) \<and> (\<forall>st \<in> set (stages r). 0 \<le> BenchmarkStage.timeMs st)"
  shows "0 \<le> meanStageTime rs i"
proof -
  have "0 \<le> sum_list (map (\<lambda>r. BenchmarkStage.timeMs (stages r ! i)) rs)"
    using assms by (intro sum_list_nonneg) auto
  then show ?thesis by (simp add: meanStageTime_def mean_def)
qed

lemma avgStage_Inr:
  assumes "\<forall>r \<in> set rs. i < length (stages r) \<and> (\<forall>st \<in> set (stages r). 0 \<le> BenchmarkStage.timeMs st)"
  shows "avgStage rs st i = Inr (st\<lparr> BenchmarkStage.timeMs := meanStageTime rs i \<rparr>)"
  using meanStageTime_nonneg [OF assms] assms
  by (simp add: avgStage_def sumStageTimes_Inr new_BenchmarkStage_def meanStageTime_def mean_def Let_def)

lemma avgStages_Inr:
  assumes "\<forall>r \<in> set rs. length (stages r) = n \<and> (\<forall>st \<in> set (stages r). 0 \<le> BenchmarkStage.timeMs st)"
    and "i + length sts = n"
  shows "avgStages rs sts i =
           Inr (map (\<lambda>(st, j). st\<lparr> BenchmarkStage.timeMs := meanStageTime rs j \<rparr>) (zip sts [i ..< n]))"
  using assms(2)
proof (induction sts arbitrary: i)
  case Nil
  then show ?case by simp
next
  case (Cons st sts)
  have lt: "i < n" using Cons.prems by simp
  have a: "avgStage rs st i = Inr (st\<lparr> BenchmarkStage.timeMs := meanStageTime rs i \<rparr>)"
    using assms(1) lt by (intro avgStage_Inr) auto
  have b: "avgStages rs sts (Suc i) =
      Inr (map (\<lambda>(st, j). st\<lparr> BenchmarkStage.timeMs := meanStageTime rs j \<rparr>) (zip sts [Suc i ..< n]))"
    using Cons.prems by (intro Cons.IH) simp
  show ?case using lt by (simp add: a b upt_conv_Cons)
qed

lemma runLoop_unfold:
  "runLoop env config i acc s =
     (if real i < BenchmarkConfiguration.runs config then
        (case executeSingleRun env config (beforeRun config i s) of
           (Inl e, s2) \<Rightarrow> (Inl e, s2)
         | (Inr r, s2) \<Rightarrow> runLoop env config (Suc i) (acc @ [r]) (afterRun env config i s2))
      else (Inr acc, s))"
  by (subst runLoop.simps)
     (simp add: beforeRun_def afterRun_def io_defs sleep_def split: prod.splits sum.splits)

lemma runLoop_results_aux:
  assumes "nat \<lceil>BenchmarkConfiguration.runs config\<rceil> - i = n"
    and "runLoop env config i acc s = (Inr rs, s')"
  shows "\<exists>new. rs = acc @ new \<and> length new = n
           \<and> (\<forall>r \<in> set new. \<exists>sa sb. executeSingleRun env config sa = (Inr r, sb))"
  using assms
proof (induction n arbitrary: i acc s)
  case 0
  then have "\<not> real i < BenchmarkConfiguration.runs config" by linarith
  with "0.prems"(2) show ?case by (simp add: runLoop_unfold [of env config i])
next
  case (Suc n)
  then have lt: "real i < BenchmarkConfiguration.runs config" by linarith
  from Suc.prems(2) lt obtain r s2 where
    run: "executeSingleRun env config (beforeRun config i s) = (Inr r, s2)" and
    rest: "runLoop env config (Suc i) (acc @ [r]) (afterRun env config i s2) = (Inr rs, s')"
    by (subst (asm) runLoop_unfold) (auto split: prod.splits sum.splits)
  have "nat \<lceil>BenchmarkConfiguration.runs config\<rceil> - Suc i = n" using Suc.prems(1) by simp
  from Suc.IH [OF this rest] obtain new where new: "rs = (acc @ [r]) @ new" "length new = n"
      "\<forall>r \<in> set new. \<exists>sa sb. executeSingleRun env config sa = (Inr r, sb)" by blast
  show ?case
    apply (rule exI [of _ "r # new"])
    using new run by auto
qed

lemmas runLoop_results = runLoop_results_aux [OF refl]

subsection \<open>The session\<close>

lemma cleanup_eq:
  "cleanup env s =
     (case proofSystemRepository_cleanup env (ext s) of
        (Inr u, x') \<Rightarrow>
          (Inr (), s\<lparr> ext := x', trace := trace s @
              [Log ''debug'' [Str ''Cleaning up proof system resources''], Call Cleanup,
               Resolved Cleanup, Log ''debug'' [Str ''Proof system cleanup completed'']] \<rparr>)
      | (Inl v, x') \<Rightarrow>
          (case messageOf v of
             Inl e \<Rightarrow>
               (Inl e, s\<lparr> ext := x', trace := trace s @
                  [Log ''debug'' [Str ''Cleaning up proof system resources''], Call Cleanup,
                   Rejected Cleanup v] \<rparr>)
           | Inr m \<Rightarrow>
               (Inr (), s\<lparr> ext := x', trace := trace s @
                  [Log ''debug'' [Str ''Cleaning up proof system resources''], Call Cleanup,
                   Rejected Cleanup v,
                   Log ''warn'' (Str ''Error during proof system cleanup:'' # m)] \<rparr>)))"
  by (simp add: cleanup_def try_catch_def io_bind_def await_repo_def io_defs
           split: prod.splits sum.splits)

lemma cleanup_outcome:
  "fst (cleanup env s) = afterCleanup (cleanupRejection env (ext s)) (Inr ())"
  by (simp add: cleanup_eq afterCleanup_def cleanupRejection_def split: prod.splits sum.splits)

lemma afterCleanup_Inr: "afterCleanup rej out = Inr r \<Longrightarrow> out = Inr r"
  by (simp add: afterCleanup_def split: option.splits sum.splits)

lemma afterCleanup_readable:
  assumes "readableCleanup env"
  shows "afterCleanup (cleanupRejection env x) out = out"
proof -
  have "messageOf v \<noteq> Inl e" if "cleanupRejection env x = Some v" for v e
  proof -
    from that have "fst (proofSystemRepository_cleanup env x) = Inl v"
      by (simp add: cleanupRejection_def split: sum.splits)
    with assms have "v \<noteq> UndefinedValue" "v \<noteq> NullValue" by (auto simp: readableCleanup_def)
    then show ?thesis by (cases v) (simp_all add: messageOf_def)
  qed
  then show ?thesis
    by (cases "cleanupRejection env x") (auto simp: afterCleanup_def split: sum.splits)
qed

lemma stopObserving_returns: "fst (stopObserving s) = Inr ()"
  by (simp add: stopObserving_def)

lemma executeBenchmark_eq:
  "executeBenchmark env config s =
     (afterCleanup (cleanupRejection env (ext (snd (executeBenchmark_try env config s))))
        (fst (executeBenchmark_try env config s)),
      snd (cleanup env (snd (stopObserving (snd (executeBenchmark_try env config s))))))"
proof -
  obtain r s1 where a: "executeBenchmark_try env config s = (r, s1)" by (cases "executeBenchmark_try env config s")
  obtain s2 where b: "stopObserving s1 = (Inr (), s2)" and x: "ext s2 = ext s1"
    by (cases "isObserving s1") (auto simp: stopObserving_def)
  obtain c s3 where c: "cleanup env s2 = (c, s3)" by (cases "cleanup env s2")
  have "c = afterCleanup (cleanupRejection env (ext s1)) (Inr ())"
    using cleanup_outcome [of env s2] c x by simp
  then show ?thesis
    by (cases "cleanupRejection env (ext s1)")
       (auto simp: executeBenchmark_def try_finally_def a b c io_bind_def afterCleanup_def
          split: sum.splits)
qed

lemma executeBenchmark_try_Inr:
  assumes "executeBenchmark_try env config s = (Inr r, s')"
  shows "\<exists>results s1 s2. runLoop env config 0 [] (observed config s) = (Inr results, s1)
            \<and> aggregateResults env results config s1 = (Inr r, s2)"
proof -
  have pre: "(if verbose config then startObserving else io_return ()) s = (Inr (), observed config s)"
    by (simp add: observed_def startObserving_def io_defs)
  from assms show ?thesis
    unfolding executeBenchmark_try_def
    by (auto simp: try_catch_def io_bind_def pre io_defs split: prod.splits sum.splits)
qed

lemma executeBenchmark_Inr:
  assumes "executeBenchmark env config s = (Inr r, s')"
  shows "\<exists>results s1 s2. runLoop env config 0 [] (observed config s) = (Inr results, s1)
            \<and> aggregateResults env results config s1 = (Inr r, s2)"
proof -
  from assms have "fst (executeBenchmark_try env config s) = Inr r"
    by (auto simp: executeBenchmark_eq dest: afterCleanup_Inr)
  then obtain s1 where "executeBenchmark_try env config s = (Inr r, s1)"
    by (cases "executeBenchmark_try env config s") auto
  then show ?thesis by (rule executeBenchmark_try_Inr)
qed

lemma executeBenchmark_single:
  assumes "executeBenchmark env config s = (Inr r, s')" and "BenchmarkConfiguration.runs config = 1"
  shows "\<exists>sa sb. executeSingleRun env config sa = (Inr r, sb)"
proof -
  from executeBenchmark_Inr [OF assms(1)] obtain results s1 s2 where
    loop: "runLoop env config 0 [] (observed config s) = (Inr results, s1)" and
    agg: "aggregateResults env results config s1 = (Inr r, s2)" by blast
  from runLoop_results [OF loop] assms(2) obtain r1 where
    "results = [r1]" "\<exists>sa sb. executeSingleRun env config sa = (Inr r1, sb)"
    by (auto simp: length_Suc_conv)
  with agg show ?thesis by (simp add: aggregateResults_def io_defs)
qed

lemma aggregateResults_many:
  assumes len: "length results \<noteq> 1" and ne: "results \<noteq> []"
    and wf: "\<forall>r \<in> set results. length (stages r) = n \<and> (\<forall>st \<in> set (stages r). 0 \<le> BenchmarkStage.timeMs st)"
    and n: "0 < n"
  shows "aggregateResults env results config s =
     (Inr \<lparr> BenchmarkResult.circuitName = BenchmarkConfiguration.circuitName config,
             BenchmarkResult.backend = BenchmarkConfiguration.backend config,
             stages = map (\<lambda>(st, j). st\<lparr> BenchmarkStage.timeMs := meanStageTime results j \<rparr>)
                        (zip (stages (hd results)) [0 ..< n]),
             totals = \<lparr> BenchmarkTotals.timeMs = mean (map (\<lambda>r. BenchmarkTotals.timeMs (totals r)) results),
                        memoryPeak = mean (map (\<lambda>r. memoryPeak (totals r)) results),
                        proofSize = proofSize (totals (hd results)),
                        witnessSize = witnessSize (totals (hd results)) \<rparr>,
             metadata = (metadata (hd results))\<lparr> BenchmarkMetadata.runs := real (length results) \<rparr>,
             timestamp = Date_now env (ext s) \<rparr>, s)"
proof -
  obtain r0 rest where res: "results = r0 # rest" using ne by (cases results) auto
  have l0: "0 + length (stages r0) = n" using wf res by simp
  have av: "avgStages results (stages r0) 0 =
      Inr (map (\<lambda>(st, j). st\<lparr> BenchmarkStage.timeMs := meanStageTime results j \<rparr>) (zip (stages r0) [0 ..< n]))"
    by (rule avgStages_Inr [OF wf l0])
  have nonempty: "stages r0 \<noteq> []" using l0 n by auto
  have "aggregateResults env (r0 # rest) config s =
     (Inr \<lparr> BenchmarkResult.circuitName = BenchmarkConfiguration.circuitName config,
             BenchmarkResult.backend = BenchmarkConfiguration.backend config,
             stages = map (\<lambda>(st, j). st\<lparr> BenchmarkStage.timeMs := meanStageTime (r0 # rest) j \<rparr>)
                        (zip (stages r0) [0 ..< n]),
             totals = \<lparr> BenchmarkTotals.timeMs = mean (map (\<lambda>r. BenchmarkTotals.timeMs (totals r)) (r0 # rest)),
                        memoryPeak = mean (map (\<lambda>r. memoryPeak (totals r)) (r0 # rest)),
                        proofSize = proofSize (totals r0),
                        witnessSize = witnessSize (totals r0) \<rparr>,
             metadata = (metadata r0)\<lparr> BenchmarkMetadata.runs := real (length (r0 # rest)) \<rparr>,
             timestamp = Date_now env (ext s) \<rparr>, s)"
    using len nonempty n l0 unfolding res aggregateResults_def Let_def
    by (simp add: av [unfolded res] io_defs io_bind_def new_BenchmarkResult_def mean_def
          fold_add_sum_list del: fold_simps)
  then show ?thesis by (simp add: res)
qed

lemma Math_max_Max: "xs \<noteq> [] \<Longrightarrow> Math_max xs = Max (set xs)"
proof (cases xs)
  case Nil
  assume "xs \<noteq> []"
  with Nil show ?thesis by simp
next
  case (Cons a list)
  show ?thesis unfolding Cons Math_max_def by (simp only: list.sel Max.set_eq_fold)
qed

lemma executeSingleRun_wf:
  assumes "executeSingleRun env config s = (Inr r, s')"
  shows "length (stages r) = 5 \<and> (\<forall>st \<in> set (stages r). 0 \<le> BenchmarkStage.timeMs st)"
  using executeSingleRun_shape [OF assms] by auto

lemma executeSingleRun_total:
  assumes "executeSingleRun env config s = (Inr r, s')"
  shows "BenchmarkTotals.timeMs (totals r) = sum_list (map BenchmarkStage.timeMs (stages r))"
  using executeSingleRun_shape [OF assms] by (auto simp: fold_add_sum_list)

lemma executeBenchmark_aggregated:
  assumes "executeBenchmark env config s = (Inr agg, s')" and "BenchmarkConfiguration.runs config > 1"
  shows "\<exists>results s1. runLoop env config 0 [] (observed config s) = (Inr results, s1)
     \<and> length results = nat \<lceil>BenchmarkConfiguration.runs config\<rceil>
     \<and> 2 \<le> length results
     \<and> (\<forall>r \<in> set results. \<exists>sa sb. executeSingleRun env config sa = (Inr r, sb))
     \<and> stages agg = map (\<lambda>(st, j). st\<lparr> BenchmarkStage.timeMs := meanStageTime results j \<rparr>)
                        (zip (stages (hd results)) [0 ..< 5])
     \<and> totals agg = \<lparr> BenchmarkTotals.timeMs = mean (map (\<lambda>r. BenchmarkTotals.timeMs (totals r)) results),
                        memoryPeak = mean (map (\<lambda>r. memoryPeak (totals r)) results),
                        proofSize = proofSize (totals (hd results)),
                        witnessSize = witnessSize (totals (hd results)) \<rparr>
     \<and> metadata agg = (metadata (hd results))\<lparr> BenchmarkMetadata.runs := real (length results) \<rparr>"
proof -
  from executeBenchmark_Inr [OF assms(1)] obtain results s1 s2 where
    loop: "runLoop env config 0 [] (observed config s) = (Inr results, s1)" and
    agg: "aggregateResults env results config s1 = (Inr agg, s2)" by blast
  from runLoop_results [OF loop] have
    len: "length results = nat \<lceil>BenchmarkConfiguration.runs config\<rceil>" and
    runs: "\<forall>r \<in> set results. \<exists>sa sb. executeSingleRun env config sa = (Inr r, sb)"
    by auto
  have two: "2 \<le> length results" using len assms(2) by linarith
  have wf: "\<forall>r \<in> set results. length (stages r) = 5 \<and> (\<forall>st \<in> set (stages r). 0 \<le> BenchmarkStage.timeMs st)"
    using runs executeSingleRun_wf by blast
  have ne: "results \<noteq> []" and l1: "length results \<noteq> 1" using two by auto
  have five: "(0::nat) < 5" by simp
  from agg show ?thesis
    unfolding aggregateResults_many [OF l1 ne wf five]
    using loop len two runs by auto
qed

lemma runLoop_returns_aux:
  assumes "\<forall>s. \<exists>r s'. executeSingleRun env config s = (Inr r, s')"
    and "nat \<lceil>BenchmarkConfiguration.runs config\<rceil> - i = n"
  shows "\<exists>rs s'. runLoop env config i acc s = (Inr rs, s')"
  using assms(2)
proof (induction n arbitrary: i acc s)
  case 0
  then have "\<not> real i < BenchmarkConfiguration.runs config" by linarith
  then show ?case by (simp add: runLoop_unfold [of env config i])
next
  case (Suc n)
  then have lt: "real i < BenchmarkConfiguration.runs config" by linarith
  from assms(1) obtain r s2 where
    run: "executeSingleRun env config (beforeRun config i s) = (Inr r, s2)" by blast
  have "nat \<lceil>BenchmarkConfiguration.runs config\<rceil> - Suc i = n" using Suc.prems by simp
  from Suc.IH [OF this] obtain rs s' where
    "runLoop env config (Suc i) (acc @ [r]) (afterRun env config i s2) = (Inr rs, s')" by blast
  with lt run show ?case by (subst runLoop_unfold) simp
qed

lemma executeBenchmark_returns:
  assumes all: "\<forall>s. \<exists>r s'. executeSingleRun env config s = (Inr r, s')"
    and pos: "0 < BenchmarkConfiguration.runs config"
    and readable: "readableCleanup env"
  shows "\<exists>r s'. executeBenchmark env config s = (Inr r, s')"
proof -
  from runLoop_returns_aux [OF all refl] obtain rs s1 where
    loop: "runLoop env config 0 [] (observed config s) = (Inr rs, s1)" by blast
  from runLoop_results [OF loop] have
    len: "length rs = nat \<lceil>BenchmarkConfiguration.runs config\<rceil>" and
    runs: "\<forall>r \<in> set rs. \<exists>sa sb. executeSingleRun env config sa = (Inr r, sb)"
    by auto
  have ne: "rs \<noteq> []" using len pos by (auto simp: less_ceiling_iff)
  have wf: "\<forall>r \<in> set rs. length (stages r) = 5 \<and> (\<forall>st \<in> set (stages r). 0 \<le> BenchmarkStage.timeMs st)"
    using runs executeSingleRun_wf by blast
  have "\<exists>agg s2. aggregateResults env rs config s1 = (Inr agg, s2)"
  proof (cases "length rs = 1")
    case True
    then show ?thesis by (simp add: aggregateResults_def io_defs)
  next
    case False
    have five: "(0::nat) < 5" by simp
    show ?thesis unfolding aggregateResults_many [OF False ne wf five] by blast
  qed
  then obtain agg s2 where agg: "aggregateResults env rs config s1 = (Inr agg, s2)" by blast
  have pre: "(if verbose config then startObserving else io_return ()) s = (Inr (), observed config s)"
    by (simp add: observed_def startObserving_def io_defs)
  have "\<exists>s3. executeBenchmark_try env config s = (Inr agg, s3)"
    unfolding executeBenchmark_try_def
    by (simp add: try_catch_def io_bind_def pre loop agg io_defs)
  then show ?thesis by (auto simp: executeBenchmark_eq afterCleanup_readable [OF readable])
qed

lemma sum_list_swap:
  "sum_list (map (\<lambda>r. \<Sum>j = 0 ..< n. g r j) rs) = (\<Sum>j = 0 ..< n. sum_list (map (\<lambda>r. g r j) rs :: real list))"
  by (induction rs) (simp_all add: sum.distrib)


lemma stages_aggregated_nth:
  assumes "stages agg = map (\<lambda>(st, j). st\<lparr> BenchmarkStage.timeMs := meanStageTime results j \<rparr>)
                        (zip sts [0 ..< 5])"
    and "length sts = 5" and "i < 5"
  shows "stages agg ! i = (sts ! i)\<lparr> BenchmarkStage.timeMs := meanStageTime results i \<rparr>"
  using assms by simp

lemmas service_defs = loadCircuit_def getTestInputs_def initialize_def generateWitness_def
  generateProof_def verifyProof_def

lemmas run_defs = executeSingleRun_def timeStage_eq service_defs try_catch_def io_bind_def
  await_repo_def io_defs reportStage_def convertToStage_def new_BenchmarkStage_def
  new_BenchmarkResult_def Let_def

subsection \<open>The stubbed run\<close>

lemma stub_run:
  "\<exists>r s'. executeSingleRun (stub_env True) (stub_config n) s = (Inr r, s')
     \<and> map BenchmarkStage.timeMs (stages r) = [5, 2, 16, 809, 150]
     \<and> map (\<lambda>st. heapUsed (after (memoryUsage st))) (stages r)
          = [1005 + ext s, 1014 + ext s, 1030 + ext s, 1839 + ext s, 1989 + ext s]"
  by (simp add: run_defs stub_env_def stub_config_def stub_memory_def)

lemma stub_run_returns:
  "\<forall>s. \<exists>r s'. executeSingleRun (stub_env True) (stub_config n) s = (Inr r, s')"
  using stub_run by blast

lemma stub_run_times:
  assumes "executeSingleRun (stub_env True) (stub_config n) s = (Inr r, s')"
  shows "map BenchmarkStage.timeMs (stages r) = [5, 2, 16, 809, 150]"
  using stub_run [of n s] assms by auto

lemma stub_runs [simp]: "BenchmarkConfiguration.runs (stub_config n) = n"
  by (simp add: stub_config_def)

lemma stub_monotonic: "monotonicClock (stub_env verdict)"
  by (simp add: monotonicClock_def stub_env_def)

lemma stub_readable: "readableCleanup (stub_env verdict)"
  by (simp add: readableCleanup_def stub_env_def)

lemma stub_session_returns:
  "0 < n \<Longrightarrow> \<exists>r s'. executeBenchmark (stub_env True) (stub_config n) s = (Inr r, s')"
  by (rule executeBenchmark_returns [OF stub_run_returns _ stub_readable]) simp

subsection \<open>What the trace of a session shows\<close>

lemma guardedI:
  assumes "\<And>s. \<exists>d. trace (snd (m s)) = trace s @ d
              \<and> (\<forall>ev \<in> set d. relevant ev \<longrightarrow> (\<exists>e. fst (m s) = Inl e \<and> E ev e))"
  shows "guarded E m"
  using assms by (simp add: guarded_def)

lemma guardedD:
  assumes "guarded E m" and "m s = (out, s')"
  shows "\<exists>d. trace s' = trace s @ d
              \<and> (\<forall>ev \<in> set d. relevant ev \<longrightarrow> (\<exists>e. out = Inl e \<and> E ev e))"
  using assms(1) [unfolded guarded_def, rule_format, of s] assms(2) by simp

lemma guarded_silent:
  assumes "\<And>s. \<exists>d. trace (snd (m s)) = trace s @ d \<and> (\<forall>ev \<in> set d. \<not> relevant ev)"
  shows "guarded E m"
  using assms by (fastforce simp: guarded_def)

lemma guarded_return [intro!]: "guarded E (io_return a)"
  and guarded_throw [intro!]: "guarded E (io_throw e)"
  and guarded_lift [intro!]: "guarded E (io_lift r)"
  and guarded_read [intro!]: "guarded E (io_read g)"
  by (rule guarded_silent, simp add: io_defs)+

lemma guarded_emit: "\<not> relevant ev \<Longrightarrow> guarded E (emit ev)"
  by (rule guarded_silent) (simp add: io_defs)

lemma guarded_logger: "Log m a \<noteq> verificationFailedLog \<Longrightarrow> guarded E (logger m a)"
  by (rule guarded_silent) (simp add: io_defs)

lemma guarded_bind:
  assumes m: "guarded E m" and f: "\<And>a. guarded E (f a)"
  shows "guarded E (io_bind m f)"
proof (rule guardedI)
  fix s
  obtain out s1 where ms: "m s = (out, s1)" by (cases "m s")
  from guardedD [OF m ms] obtain d where
    d: "trace s1 = trace s @ d" "\<forall>ev \<in> set d. relevant ev \<longrightarrow> (\<exists>e. out = Inl e \<and> E ev e)"
    by blast
  show "\<exists>d. trace (snd (io_bind m f s)) = trace s @ d
              \<and> (\<forall>ev \<in> set d. relevant ev \<longrightarrow> (\<exists>e. fst (io_bind m f s) = Inl e \<and> E ev e))"
  proof (cases out)
    case (Inl e)
    with ms d show ?thesis by (auto simp: io_bind_def)
  next
    case (Inr a)
    obtain out2 s2 where fs: "f a s1 = (out2, s2)" by (cases "f a s1")
    from guardedD [OF f fs] obtain d2 where
      d2: "trace s2 = trace s1 @ d2" "\<forall>ev \<in> set d2. relevant ev \<longrightarrow> (\<exists>e. out2 = Inl e \<and> E ev e)"
      by blast
    from Inr d(2) have quiet: "\<forall>ev \<in> set d. \<not> relevant ev" by auto
    have "io_bind m f s = (out2, s2)" using ms Inr fs by (simp add: io_bind_def)
    moreover have "trace s2 = trace s @ (d @ d2)" using d(1) d2(1) by simp
    ultimately show ?thesis using quiet d2(2) by (intro exI [of _ "d @ d2"]) auto
  qed
qed

lemma guarded_if:
  "(c \<Longrightarrow> guarded E m) \<Longrightarrow> (\<not> c \<Longrightarrow> guarded E m') \<Longrightarrow> guarded E (if c then m else m')"
  by simp

lemmas leaf_defs = timeStage_eq try_catch_def io_bind_def await_repo_def io_defs new_Error_def
  verificationFailedLog_def

lemma guarded_stage_load:
  "guarded (explains (monotonicClock env) cn) (timeStage env ''circuit-load'' (loadCircuit env nm))"
  by (rule guardedI)
     (auto simp: leaf_defs loadCircuit_def split: prod.splits sum.splits thrown.splits)

lemma guarded_getTestInputs:
  "guarded (explains (monotonicClock env) cn) (getTestInputs env cn)"
  by (rule guardedI)
     (auto simp: leaf_defs getTestInputs_def split: prod.splits sum.splits)

lemma guarded_stage_init:
  "guarded (explains (monotonicClock env) cn) (timeStage env ''backend-init''
      (io_bind (initialize env circuit) (\<lambda>_. io_return True)))"
  by (rule guardedI)
     (auto simp: leaf_defs initialize_def split: prod.splits sum.splits)

lemma guarded_stage_witness:
  "guarded (explains (monotonicClock env) cn) (timeStage env ''witness-generate'' (generateWitness env circuit inputs))"
  by (rule guardedI)
     (auto simp: leaf_defs generateWitness_def split: prod.splits sum.splits)

lemma guarded_stage_proof:
  "guarded (explains (monotonicClock env) cn) (timeStage env ''proof-generate'' (generateProof env witness))"
  by (rule guardedI)
     (auto simp: leaf_defs generateProof_def split: prod.splits sum.splits)

lemma guarded_reportStage:
  "guarded E (reportStage config a b sr)"
  by (rule guarded_silent) (simp add: reportStage_def io_defs verificationFailedLog_def)

lemma guarded_sleep: "guarded E (sleep env ms)"
  by (rule guarded_silent) (simp add: sleep_def)

lemma guarded_verify_tail:
  assumes g: "\<And>vr st5. guarded (explains (monotonicClock env) cn) (g vr st5)"
  shows "guarded (explains (monotonicClock (env :: 'x env)) cn)
     (io_bind (timeStage env ''proof-verify'' (verifyProof env p)) (\<lambda>vr.
      io_bind (io_lift (convertToStage vr)) (\<lambda>st5.
      io_bind (reportStage config a b vr) (\<lambda>_.
      if \<not> result vr then io_throw (new_Error [Str ''Proof verification failed''])
      else g vr st5))))"
    (is "guarded _ ?tail")
proof (rule guardedI)
  fix s :: "'x world"
  obtain r x' where rep: "proofSystemRepository_verifyProof env p (ext s) = (r, x')"
    by (cases "proofSystemRepository_verifyProof env p (ext s)")
  have fwd: "performance_now env (ext s) \<le> performance_now env x'" if "monotonicClock env"
    using that [unfolded monotonicClock_def, rule_format, of "ext s"] rep
    by (auto dest: spec [of _ p])
  show "\<exists>d. trace (snd (?tail s)) = trace s @ d
          \<and> (\<forall>ev \<in> set d. relevant ev \<longrightarrow> (\<exists>e. fst (?tail s) = Inl e \<and> explains (monotonicClock env) cn ev e))"
  proof (cases r)
    case (Inl e)
    with rep show ?thesis
      by (simp add: leaf_defs verifyProof_def)
  next
    case (Inr v)
    show ?thesis
    proof (cases v)
      case False
      with rep Inr fwd show ?thesis
        by (auto simp: leaf_defs verifyProof_def convertToStage_def new_BenchmarkStage_def
              reportStage_def Let_def)
    next
      case True
      define s1 where "s1 = s\<lparr> ext := x', trace := trace s @
          [Mark ''proof-verify-start'',
           Log ''debug'' [Str ''Verifying proof ('', Num (ProofResult_proofSize p), Str '' bytes)''],
           Call VerifyProof, Resolved VerifyProof,
           Log ''debug'' [Str ''Proof verification '', Str ''succeeded''],
           Mark ''proof-verify-end'',
           Measure ''proof-verify'' ''proof-verify-start'' ''proof-verify-end''] \<rparr>"
      have ts: "\<exists>vr. timeStage env ''proof-verify'' (verifyProof env p) s = (Inr vr, s1) \<and> result vr"
        using rep Inr True by (simp add: leaf_defs verifyProof_def s1_def)
      then obtain vr where vr: "timeStage env ''proof-verify'' (verifyProof env p) s = (Inr vr, s1)"
        and ok: "result vr" by blast
      show ?thesis
      proof (cases "convertToStage vr")
        case (Inl e)
        then have "?tail s = (Inl e, s1)" using vr by (simp add: io_bind_def io_defs)
        then show ?thesis by (simp add: s1_def verificationFailedLog_def)
      next
        case (Inr st5)
        obtain s2 d2 where rp: "reportStage config a b vr s1 = (Inr (), s2)"
          and s2: "trace s2 = trace s1 @ d2" "\<forall>ev \<in> set d2. \<not> relevant ev"
          by (cases "verbose config") (auto simp: reportStage_def io_defs verificationFailedLog_def)
        have tail: "?tail s = g vr st5 s2"
          using vr Inr rp ok by (simp add: io_bind_def io_defs)
        obtain out s3 where gs: "g vr st5 s2 = (out, s3)" by (cases "g vr st5 s2")
        from guardedD [OF g gs] obtain d3 where
          d3: "trace s3 = trace s2 @ d3"
              "\<forall>ev \<in> set d3. relevant ev \<longrightarrow> (\<exists>e. out = Inl e \<and> explains (monotonicClock env) cn ev e)" by blast
        have "trace s3 = trace s @ (drop (length (trace s)) (trace s1) @ d2 @ d3)"
          using d3(1) s2(1) by (simp add: s1_def)
        moreover have "\<forall>ev \<in> set (drop (length (trace s)) (trace s1)). \<not> relevant ev"
          by (simp add: s1_def verificationFailedLog_def)
        ultimately show ?thesis
          unfolding tail gs using s2(2) d3(2)
          by (intro exI [of _ "drop (length (trace s)) (trace s1) @ d2 @ d3"]) auto
      qed
    qed
  qed
qed

lemma guarded_executeSingleRun:
  "guarded (explains (monotonicClock env) (BenchmarkConfiguration.circuitName config)) (executeSingleRun env config)"
  unfolding executeSingleRun_def Let_def
  by (intro guarded_verify_tail guarded_bind guarded_stage_load guarded_stage_init
        guarded_stage_witness guarded_stage_proof guarded_getTestInputs guarded_reportStage
        guarded_logger guarded_lift guarded_read)
     (simp_all add: verificationFailedLog_def)

lemma runLoop_monadic:
  "runLoop env config i acc =
     (if real i < BenchmarkConfiguration.runs config then
        io_bind (if BenchmarkConfiguration.runs config > 1
                 then logger ''info'' [Str ''Run '', Num (real i + 1), Str ''/'',
                        Num (BenchmarkConfiguration.runs config)]
                 else io_return ()) (\<lambda>_.
        io_bind (executeSingleRun env config) (\<lambda>runResult.
        io_bind (if real i < BenchmarkConfiguration.runs config - 1
                 then sleep env 100 else io_return ()) (\<lambda>_.
        runLoop env config (Suc i) (acc @ [runResult]))))
      else io_return acc)"
  by (rule ext, subst runLoop.simps)
     (simp add: io_bind_def io_return_def split: prod.splits sum.splits)

lemma guarded_runLoop_aux:
  assumes "nat \<lceil>BenchmarkConfiguration.runs config\<rceil> - i = n"
  shows "guarded (explains (monotonicClock env) (BenchmarkConfiguration.circuitName config)) (runLoop env config i acc)"
  using assms
proof (induction n arbitrary: i acc)
  case 0
  then have "\<not> real i < BenchmarkConfiguration.runs config" by linarith
  then show ?case by (subst runLoop_monadic) (simp add: guarded_return)
next
  case (Suc n)
  then have step: "nat \<lceil>BenchmarkConfiguration.runs config\<rceil> - Suc i = n" by simp
  show ?case
    by (subst runLoop_monadic)
       (intro guarded_if guarded_bind guarded_executeSingleRun guarded_logger guarded_sleep
          guarded_return Suc.IH [OF step],
        simp_all add: verificationFailedLog_def)
qed

lemmas guarded_runLoop = guarded_runLoop_aux [OF refl]

lemma guarded_startObserving: "guarded E startObserving"
  by (rule guarded_silent) (simp add: startObserving_def)

lemma aggregateResults_state: "snd (aggregateResults env rs config s) = s"
  by (simp add: aggregateResults_def io_defs io_bind_def Let_def split: list.splits sum.splits)

lemma guarded_aggregateResults: "guarded E (aggregateResults env rs config)"
  by (rule guarded_silent) (simp add: aggregateResults_state)

lemma guarded_try_rethrow:
  assumes m: "guarded E m" and quiet: "\<And>e. Log me (a e) \<noteq> verificationFailedLog"
  shows "guarded E (try_catch m (\<lambda>e. io_bind (logger me (a e)) (\<lambda>_. io_throw e)))"
proof (rule guardedI)
  fix s
  obtain out s1 where ms: "m s = (out, s1)" by (cases "m s")
  from guardedD [OF m ms] obtain d where
    d: "trace s1 = trace s @ d" "\<forall>ev \<in> set d. relevant ev \<longrightarrow> (\<exists>e. out = Inl e \<and> E ev e)"
    by blast
  show "\<exists>d. trace (snd (try_catch m (\<lambda>e. io_bind (logger me (a e)) (\<lambda>_. io_throw e)) s)) = trace s @ d
          \<and> (\<forall>ev \<in> set d. relevant ev \<longrightarrow>
                (\<exists>e. fst (try_catch m (\<lambda>e. io_bind (logger me (a e)) (\<lambda>_. io_throw e)) s) = Inl e \<and> E ev e))"
  proof (cases out)
    case (Inl e)
    with ms d quiet [of e] show ?thesis
      by (intro exI [of _ "d @ [Log me (a e)]"]) (auto simp: try_catch_def io_defs)
  next
    case (Inr r)
    with ms d show ?thesis by (auto simp: try_catch_def)
  qed
qed

lemma guarded_executeBenchmark_try:
  "guarded (explains (monotonicClock env) (BenchmarkConfiguration.circuitName config)) (executeBenchmark_try env config)"
  unfolding executeBenchmark_try_def
  by (intro guarded_try_rethrow guarded_bind guarded_if guarded_startObserving guarded_runLoop
        guarded_aggregateResults guarded_logger guarded_return)
     (simp_all add: verificationFailedLog_def)

lemma finally_trace:
  "trace (snd (cleanup env (snd (stopObserving s1))))
     = trace s1 @ cleanupEvents (isObserving s1) (cleanupRejection env (ext s1))"
  by (auto simp: cleanupEvents_def cleanupRejection_def cleanup_eq stopObserving_def
        split: prod.splits sum.splits)

lemma session_trace:
  assumes "executeBenchmark env config s = (out, s')"
  shows "\<exists>d s1 out1. executeBenchmark_try env config s = (out1, s1)
     \<and> out = afterCleanup (cleanupRejection env (ext s1)) out1
     \<and> trace s1 = trace s @ d
     \<and> trace s' = trace s @ d @ cleanupEvents (isObserving s1) (cleanupRejection env (ext s1))
     \<and> (\<forall>ev \<in> set d. relevant ev \<longrightarrow>
           (\<exists>e. out1 = Inl e
              \<and> explains (monotonicClock env) (BenchmarkConfiguration.circuitName config) ev e))"
proof -
  obtain out1 s1 where t: "executeBenchmark_try env config s = (out1, s1)"
    by (cases "executeBenchmark_try env config s")
  from guardedD [OF guarded_executeBenchmark_try t] obtain d where
    d: "trace s1 = trace s @ d"
       "\<forall>ev \<in> set d. relevant ev \<longrightarrow>
           (\<exists>e. out1 = Inl e
              \<and> explains (monotonicClock env) (BenchmarkConfiguration.circuitName config) ev e)"
    by blast
  have s': "s' = snd (cleanup env (snd (stopObserving s1)))"
    and out: "out = afterCleanup (cleanupRejection env (ext s1)) out1"
    using assms t by (simp_all add: executeBenchmark_eq)
  have "trace s' = trace s @ d @ cleanupEvents (isObserving s1) (cleanupRejection env (ext s1))"
    unfolding s' finally_trace d(1) by simp
  with d t out show ?thesis by blast
qed

lemma session_trace_readable:
  assumes "executeBenchmark env config s = (out, s')" and "readableCleanup env"
  shows "\<exists>d s1. executeBenchmark_try env config s = (out, s1)
     \<and> trace s1 = trace s @ d
     \<and> trace s' = trace s @ d @ cleanupEvents (isObserving s1) (cleanupRejection env (ext s1))
     \<and> (\<forall>ev \<in> set d. relevant ev \<longrightarrow>
           (\<exists>e. out = Inl e
              \<and> explains (monotonicClock env) (BenchmarkConfiguration.circuitName config) ev e))"
  using session_trace [OF assms(1)] unfolding afterCleanup_readable [OF assms(2)] by blast

lemma logger_Inr: "logger m a s = (Inr u, s1) \<Longrightarrow> ext s1 = ext s \<and> trace s1 = trace s @ [Log m a]"
  by (auto simp: io_defs)

lemma reportStage_Inr:
  "reportStage config a b sr s = (Inr u, s1) \<Longrightarrow> ext s1 = ext s \<and> (\<exists>m args. trace s1 = trace s @ [Log m args])"
  by (auto simp: reportStage_def io_defs split: if_splits)

lemma stage_init_Inr:
  assumes "timeStage (env :: 'x env) ''backend-init'' (io_bind (initialize env circuit) (\<lambda>_. io_return True)) s = (Inr sr, s')"
  shows "\<exists>d. proofSystemRepository_initialize env circuit (ext s) = (Inr (()), ext s')
     \<and> StageResult.timeMs sr = performance_now env (ext s') - performance_now env (ext s)
     \<and> stage sr = ''backend-init''
     \<and> trace s' = trace s @ d
     \<and> filter (\<lambda>ev. \<not> isLog ev) d =
          [Mark ''backend-init-start'', Call Initialize, Resolved Initialize,
           Mark ''backend-init-end'',
           Measure ''backend-init'' ''backend-init-start'' ''backend-init-end'']"
proof -
  obtain r x' where rep: "proofSystemRepository_initialize env circuit (ext s) = (r, x')"
    by (cases "proofSystemRepository_initialize env circuit (ext s)")
  show ?thesis
  proof (cases r)
    case (Inl e)
    with rep have "\<exists>e' s1. timeStage env ''backend-init'' (io_bind (initialize env circuit) (\<lambda>_. io_return True)) s = (Inl e', s1)"
      by (simp add: leaf_defs initialize_def)
    with assms show ?thesis by auto
  next
    case (Inr a)
    with rep assms show ?thesis
      by (auto simp: leaf_defs initialize_def)
  qed
qed

lemma stage_witness_Inr:
  assumes "timeStage (env :: 'x env) ''witness-generate'' (generateWitness env circuit inputs) s = (Inr sr, s')"
  shows "\<exists>d. proofSystemRepository_generateWitness env circuit inputs (ext s) = (Inr (result sr), ext s')
     \<and> StageResult.timeMs sr = performance_now env (ext s') - performance_now env (ext s)
     \<and> stage sr = ''witness-generate''
     \<and> trace s' = trace s @ d
     \<and> filter (\<lambda>ev. \<not> isLog ev) d =
          [Mark ''witness-generate-start'', Call GenerateWitness, Resolved GenerateWitness,
           Mark ''witness-generate-end'',
           Measure ''witness-generate'' ''witness-generate-start'' ''witness-generate-end'']"
proof -
  obtain r x' where rep: "proofSystemRepository_generateWitness env circuit inputs (ext s) = (r, x')"
    by (cases "proofSystemRepository_generateWitness env circuit inputs (ext s)")
  show ?thesis
  proof (cases r)
    case (Inl e)
    with rep have "\<exists>e' s1. timeStage env ''witness-generate'' (generateWitness env circuit inputs) s = (Inl e', s1)"
      by (simp add: leaf_defs generateWitness_def)
    with assms show ?thesis by auto
  next
    case (Inr a)
    with rep assms show ?thesis
      by (auto simp: leaf_defs generateWitness_def)
  qed
qed

lemma stage_proof_Inr:
  assumes "timeStage (env :: 'x env) ''proof-generate'' (generateProof env witness) s = (Inr sr, s')"
  shows "\<exists>d. proofSystemRepository_generateProof env witness (ext s) = (Inr (result sr), ext s')
     \<and> StageResult.timeMs sr = performance_now env (ext s') - performance_now env (ext s)
     \<and> stage sr = ''proof-generate''
     \<and> trace s' = trace s @ d
     \<and> filter (\<lambda>ev. \<not> isLog ev) d =
          [Mark ''proof-generate-start'', Call GenerateProof, Resolved GenerateProof,
           Mark ''proof-generate-end'',
           Measure ''proof-generate'' ''proof-generate-start'' ''proof-generate-end'']"
proof -
  obtain r x' where rep: "proofSystemRepository_generateProof env witness (ext s) = (r, x')"
    by (cases "proofSystemRepository_generateProof env witness (ext s)")
  show ?thesis
  proof (cases r)
    case (Inl e)
    with rep have "\<exists>e' s1. timeStage env ''proof-generate'' (generateProof env witness) s = (Inl e', s1)"
      by (simp add: leaf_defs generateProof_def)
    with assms show ?thesis by auto
  next
    case (Inr a)
    with rep assms show ?thesis
      by (auto simp: leaf_defs generateProof_def)
  qed
qed

lemma stage_verify_Inr:
  assumes "timeStage (env :: 'x env) ''proof-verify'' (verifyProof env p) s = (Inr sr, s')"
  shows "\<exists>d. proofSystemRepository_verifyProof env p (ext s) = (Inr (result sr), ext s')
     \<and> StageResult.timeMs sr = performance_now env (ext s') - performance_now env (ext s)
     \<and> stage sr = ''proof-verify''
     \<and> trace s' = trace s @ d
     \<and> filter (\<lambda>ev. \<not> isLog ev) d =
          [Mark ''proof-verify-start'', Call VerifyProof, Resolved VerifyProof,
           Mark ''proof-verify-end'',
           Measure ''proof-verify'' ''proof-verify-start'' ''proof-verify-end'']"
proof -
  obtain r x' where rep: "proofSystemRepository_verifyProof env p (ext s) = (r, x')"
    by (cases "proofSystemRepository_verifyProof env p (ext s)")
  show ?thesis
  proof (cases r)
    case (Inl e)
    with rep have "\<exists>e' s1. timeStage env ''proof-verify'' (verifyProof env p) s = (Inl e', s1)"
      by (simp add: leaf_defs verifyProof_def)
    with assms show ?thesis by auto
  next
    case (Inr a)
    with rep assms show ?thesis
      by (auto simp: leaf_defs verifyProof_def)
  qed
qed

lemma getTestInputs_Inr:
  assumes "getTestInputs (env :: 'x env) n s = (Inr inputs, s')"
  shows "\<exists>d. circuitRepository_getTestInputs env n (ext s) = (Inr inputs, ext s')
     \<and> trace s' = trace s @ d
     \<and> filter (\<lambda>ev. \<not> isLog ev) d = [Call GetTestInputs, Resolved GetTestInputs]"
proof -
  obtain r x' where rep: "circuitRepository_getTestInputs env n (ext s) = (r, x')"
    by (cases "circuitRepository_getTestInputs env n (ext s)")
  show ?thesis
  proof (cases r)
    case (Inl e)
    with rep have "\<exists>e' s1. getTestInputs env n s = (Inl e', s1)"
      by (simp add: leaf_defs getTestInputs_def)
    with assms show ?thesis by auto
  next
    case (Inr a)
    with rep assms show ?thesis
      by (auto simp: leaf_defs getTestInputs_def)
  qed
qed

lemma stage_load_Inr:
  assumes "timeStage (env :: 'x env) ''circuit-load'' (loadCircuit env n) s = (Inr sr, s')"
  shows "\<exists>x0 d. circuitRepository_exists env n (ext s) = (Inr True, x0)
     \<and> circuitRepository_load env n x0 = (Inr (result sr), ext s')
     \<and> StageResult.timeMs sr = performance_now env (ext s') - performance_now env (ext s)
     \<and> stage sr = ''circuit-load''
     \<and> trace s' = trace s @ d
     \<and> filter (\<lambda>ev. \<not> isLog ev) d =
          [Mark ''circuit-load-start'', Call Exists, Resolved Exists, Call Load, Resolved Load,
           Mark ''circuit-load-end'',
           Measure ''circuit-load'' ''circuit-load-start'' ''circuit-load-end'']"
proof -
  obtain r x0 where rep: "circuitRepository_exists env n (ext s) = (r, x0)"
    by (cases "circuitRepository_exists env n (ext s)")
  obtain r' x1 where rep': "circuitRepository_load env n x0 = (r', x1)"
    by (cases "circuitRepository_load env n x0")
  have fails: "\<exists>e' s1. timeStage env ''circuit-load'' (loadCircuit env n) s = (Inl e', s1)"
    if "r \<noteq> Inr True \<or> (\<exists>e. r' = Inl e)"
  proof (cases r)
    case (Inl e)
    with rep show ?thesis by (simp add: leaf_defs loadCircuit_def split: thrown.splits)
  next
    case (Inr b)
    show ?thesis
    proof (cases b)
      case False
      with rep Inr show ?thesis by (simp add: leaf_defs loadCircuit_def)
    next
      case True
      with that Inr obtain e where "r' = Inl e" by auto
      with rep rep' Inr True show ?thesis
        by (simp add: leaf_defs loadCircuit_def split: thrown.splits)
    qed
  qed
  with assms have r: "r = Inr True" and "\<exists>c. r' = Inr c" by (auto intro: sum.exhaust [of r'])
  then obtain c where c: "r' = Inr c" by blast
  from rep rep' r c assms show ?thesis
    by (auto simp: leaf_defs loadCircuit_def)
qed

lemma executeSingleRun_path:
  assumes "executeSingleRun (env :: 'x env) config s = (Inr r, s')"
  shows "\<exists>x0 x1 x2 x3 x4 x5 circuit inputs witness proof' d.
      circuitRepository_exists env (BenchmarkConfiguration.circuitName config) (ext s) = (Inr True, x0)
    \<and> circuitRepository_load env (BenchmarkConfiguration.circuitName config) x0 = (Inr circuit, x1)
    \<and> circuitRepository_getTestInputs env (BenchmarkConfiguration.circuitName config) x1 = (Inr inputs, x2)
    \<and> proofSystemRepository_initialize env circuit x2 = (Inr (), x3)
    \<and> proofSystemRepository_generateWitness env circuit inputs x3 = (Inr witness, x4)
    \<and> proofSystemRepository_generateProof env witness x4 = (Inr proof', x5)
    \<and> proofSystemRepository_verifyProof env proof' x5 = (Inr True, ext s')
    \<and> map BenchmarkStage.timeMs (stages r) =
         [performance_now env x1 - performance_now env (ext s),
          performance_now env x3 - performance_now env x2,
          performance_now env x4 - performance_now env x3,
          performance_now env x5 - performance_now env x4,
          performance_now env (ext s') - performance_now env x5]
    \<and> trace s' = trace s @ d
    \<and> filter (\<lambda>ev. \<not> isLog ev) d = runEvents"
  using assms
  unfolding executeSingleRun_def Let_def
  apply (elim io_bind_InrE io_lift_InrE)
  apply (simp add: new_BenchmarkResult_def io_throw_def io_lift_def io_read_def io_bind_def split: if_splits)
  apply (drule stage_load_Inr stage_init_Inr stage_witness_Inr stage_proof_Inr stage_verify_Inr
      getTestInputs_Inr convertToStage_Inr logger_Inr reportStage_Inr)+
  apply (clarsimp simp: runEvents_def)
  done

subsection \<open>The models\<close>

lemma new_ProofResult_ok:
  "new_ProofResult p pub t v vt = Inr r \<Longrightarrow> p \<noteq> [] \<and> 0 \<le> t \<and> proof_bytes r = p \<and> ProofResult.generationTimeMs r = t"
  by (auto simp: new_ProofResult_def split: if_splits)

lemma ProofResult_failed_throws:
  "ProofResult_failed msg t = Inl (new_Error [Str ''Proof cannot be empty''])"
  by (simp add: ProofResult_failed_def new_FailedProofResult_def new_ProofResult_def)

text \<open>
  C8 (the code at the failing input). The claim says that \<open>ProofResult.failed\<close> succeeds for
  every message and every generation time at least 0 and yields a value whose verified flag is
  false. In the code the call never yields a value: the super constructor receives an empty
  proof and throws \<open>Proof cannot be empty\<close>. Here at the message \<open>backend crashed\<close> and the
  time 12.
\<close>

theorem C8_failed_throws_at_input:
  "ProofResult_failed [Str ''backend crashed''] 12 = Inl (new_Error [Str ''Proof cannot be empty''])
   \<and> (\<forall>r. ProofResult_failed [Str ''backend crashed''] 12 \<noteq> Inr r)"
  by (simp add: ProofResult_failed_def new_FailedProofResult_def new_ProofResult_def)

subsection \<open>The stages of a result\<close>

text \<open>
  C4. For every configuration with \<open>runs = 1\<close> whose benchmark returns a result, the stages
  of the result are exactly five, in pipeline order: the load stage \<open>circuit-load\<close>, then
  \<open>backend-init\<close>, \<open>witness-generate\<close>, \<open>proof-generate\<close> and \<open>proof-verify\<close>.
\<close>
theorem C4_single_run_five_stages:
  assumes "executeBenchmark env config s = (Inr r, s')"
    and "BenchmarkConfiguration.runs config = 1"
  shows "length (stages r) = 5
     \<and> map BenchmarkStage.name (stages r) =
          [''circuit-load'', ''backend-init'', ''witness-generate'', ''proof-generate'',
           ''proof-verify'']"
proof -
  from executeBenchmark_single [OF assms] obtain sa sb where
    "executeSingleRun env config sa = (Inr r, sb)" by blast
  from executeSingleRun_shape [OF this] show ?thesis by auto
qed

text \<open>The stubbed benchmark with one run returns such a result.\<close>

theorem C4_single_run_five_stages_witness:
  "\<exists>r s'. executeBenchmark (stub_env True) (stub_config 1) stub_world = (Inr r, s')
     \<and> BenchmarkConfiguration.runs (stub_config 1) = 1
     \<and> length (stages r) = 5
     \<and> map BenchmarkStage.name (stages r) =
          [''circuit-load'', ''backend-init'', ''witness-generate'', ''proof-generate'',
           ''proof-verify'']"
proof -
  have one: "BenchmarkConfiguration.runs (stub_config 1) = 1" by simp
  obtain r s' where ev: "executeBenchmark (stub_env True) (stub_config 1) stub_world = (Inr r, s')"
    using stub_session_returns [of 1 stub_world] by auto
  from C4_single_run_five_stages [OF ev one] ev one show ?thesis
    by (intro exI [of _ r] exI [of _ s']) simp
qed

text \<open>
  C7. For every result of a single run, \<open>totals.memoryPeak\<close> is the maximum, over the five
  stages of the run, of the heap used after the stage (\<open>memoryUsage.after.heapUsed\<close>).
\<close>
theorem C7_peak_is_max_heap_after:
  assumes "executeSingleRun env config s = (Inr r, s')"
  shows "length (stages r) = 5
     \<and> memoryPeak (totals r) = Max (set (map (\<lambda>st. heapUsed (after (memoryUsage st))) (stages r)))"
proof -
  from executeSingleRun_shape [OF assms] obtain st1 st2 st3 st4 st5 where
    st: "stages r = [st1, st2, st3, st4, st5]" and
    pk: "memoryPeak (totals r) = Math_max (map (\<lambda>s. heapUsed (after (memoryUsage s))) (stages r))"
    by blast
  have "map (\<lambda>s. heapUsed (after (memoryUsage s))) (stages r) \<noteq> []" by (simp add: st)
  from Math_max_Max [OF this] pk st show ?thesis by simp
qed

text \<open>In the stubbed run the heap after the last stage, 1989 bytes, is the peak.\<close>

theorem C7_peak_is_max_heap_after_witness:
  "\<exists>r s'. executeSingleRun (stub_env True) (stub_config 1) stub_world = (Inr r, s')
     \<and> memoryPeak (totals r) = Max (set (map (\<lambda>st. heapUsed (after (memoryUsage st))) (stages r)))
     \<and> memoryPeak (totals r) = 1989"
proof -
  obtain r s' where ev: "executeSingleRun (stub_env True) (stub_config 1) stub_world = (Inr r, s')"
    and hp: "map (\<lambda>st. heapUsed (after (memoryUsage st))) (stages r) = [1005, 1014, 1030, 1839, 1989]"
    using stub_run [of 1 stub_world] by (auto simp: stub_world_def)
  from C7_peak_is_max_heap_after [OF ev] have
    "memoryPeak (totals r) = Max (set (map (\<lambda>st. heapUsed (after (memoryUsage st))) (stages r)))"
    by simp
  moreover from this have "memoryPeak (totals r) = 1989" unfolding hp by simp
  ultimately show ?thesis using ev by (intro exI [of _ r] exI [of _ s']) simp
qed

subsection \<open>The aggregate of several runs\<close>

lemma aggregated_times:
  assumes st: "stages agg = map (\<lambda>(st, j). st\<lparr> BenchmarkStage.timeMs := meanStageTime results j \<rparr>)
                        (zip sts [0 ..< 5])"
    and len: "length sts = 5"
  shows "map BenchmarkStage.timeMs (stages agg) = map (meanStageTime results) [0 ..< 5]"
proof -
  have "map BenchmarkStage.timeMs (stages agg) = map (\<lambda>(st, j). meanStageTime results j) (zip sts [0 ..< 5])"
    unfolding st by (simp add: case_prod_unfold)
  also have "\<dots> = map (meanStageTime results) (map snd (zip sts [0 ..< 5]))"
    by (simp add: case_prod_unfold)
  also have "map snd (zip sts [0 ..< 5]) = [0 ..< 5]"
    using len by (simp add: map_snd_zip)
  finally show ?thesis .
qed

lemma first_run_stages:
  assumes "2 \<le> length results"
    and "\<forall>r \<in> set results. \<exists>sa sb. executeSingleRun env config sa = (Inr r, sb)"
  shows "length (stages (hd results)) = 5" and "hd results = results ! 0"
proof -
  from assms(1) have ne: "results \<noteq> []" by auto
  then have "hd results \<in> set results" by simp
  with assms(2) executeSingleRun_wf show "length (stages (hd results)) = 5" by blast
  from ne show "hd results = results ! 0" by (simp add: hd_conv_nth)
qed










lemma aggregateResults_empty:
  "aggregateResults env [] config s = (Inr r, s') \<Longrightarrow> False"
  by (simp add: aggregateResults_def io_defs)

lemma run_total_as_sum:
  assumes "executeSingleRun env config sa = (Inr r, sb)"
  shows "BenchmarkTotals.timeMs (totals r) = (\<Sum>j = 0 ..< 5. BenchmarkStage.timeMs (stages r ! j))"
proof -
  have l: "length (stages r) = 5" using executeSingleRun_wf [OF assms] by simp
  have "sum_list (map BenchmarkStage.timeMs (stages r))
          = (\<Sum>j = 0 ..< length (map BenchmarkStage.timeMs (stages r)). map BenchmarkStage.timeMs (stages r) ! j)"
    by (rule sum_list_sum_nth [where xs = "map BenchmarkStage.timeMs (stages r)", simplified atLeast0LessThan [symmetric]])
  also have "\<dots> = (\<Sum>j = 0 ..< 5. BenchmarkStage.timeMs (stages r ! j))"
    using l by (intro sum.cong) auto
  finally show ?thesis using executeSingleRun_total [OF assms] by simp
qed

lemma mean_totals_is_sum_of_means:
  assumes runs: "\<forall>r \<in> set results. \<exists>sa sb. executeSingleRun env config sa = (Inr r, sb)"
  shows "mean (map (\<lambda>r. BenchmarkTotals.timeMs (totals r)) results)
           = sum_list (map (meanStageTime results) [0 ..< 5])"
proof -
  have "BenchmarkTotals.timeMs (totals r) = (\<Sum>j = 0 ..< 5. BenchmarkStage.timeMs (stages r ! j))"
    if "r \<in> set results" for r
    using runs that run_total_as_sum by blast
  then have "map (\<lambda>r. BenchmarkTotals.timeMs (totals r)) results
          = map (\<lambda>r. \<Sum>j = 0 ..< 5. BenchmarkStage.timeMs (stages r ! j)) results"
    by (intro map_cong) auto
  then have "sum_list (map (\<lambda>r. BenchmarkTotals.timeMs (totals r)) results)
          = (\<Sum>j = 0 ..< 5. sum_list (map (\<lambda>r. BenchmarkStage.timeMs (stages r ! j)) results))"
    by (simp only: sum_list_swap)
  then have "mean (map (\<lambda>r. BenchmarkTotals.timeMs (totals r)) results)
          = (\<Sum>j = 0 ..< 5. sum_list (map (\<lambda>r. BenchmarkStage.timeMs (stages r ! j)) results))
              / real (length results)"
    by (simp add: mean_def)
  also have "\<dots> = (\<Sum>j = 0 ..< 5. meanStageTime results j)"
    by (simp add: meanStageTime_def mean_def sum_divide_distrib)
  also have "\<dots> = sum_list (map (meanStageTime results) [0 ..< 5])"
    by (simp add: interv_sum_list_conv_sum_set_nat)
  finally show ?thesis .
qed

text \<open>
  C6. For every result that \<open>executeBenchmark\<close> returns, of one run or aggregated,
  \<open>totals.timeMs\<close> is the sum of the times of its stages; over the reals the two are equal,
  hence within the tolerance 0.01.
\<close>

theorem C6_total_is_sum_of_stages:
  assumes "executeBenchmark env config s = (Inr r, s')"
  shows "BenchmarkTotals.timeMs (totals r) = sum_list (map BenchmarkStage.timeMs (stages r))
     \<and> \<bar>BenchmarkTotals.timeMs (totals r) - sum_list (map BenchmarkStage.timeMs (stages r))\<bar> \<le> 1 / 100"
proof -
  from executeBenchmark_Inr [OF assms] obtain results s1 s2 where
    loop: "runLoop env config 0 [] (observed config s) = (Inr results, s1)" and
    agg: "aggregateResults env results config s1 = (Inr r, s2)" by blast
  from runLoop_results [OF loop] have
    runs: "\<forall>r \<in> set results. \<exists>sa sb. executeSingleRun env config sa = (Inr r, sb)" by auto
  have eq: "BenchmarkTotals.timeMs (totals r) = sum_list (map BenchmarkStage.timeMs (stages r))"
  proof (cases "length results = 1")
    case True
    then obtain r1 where r1: "results = [r1]" by (auto simp: length_Suc_conv)
    with agg have "r = r1" by (simp add: aggregateResults_def io_defs)
    with runs r1 obtain sa sb where "executeSingleRun env config sa = (Inr r, sb)" by auto
    then show ?thesis by (rule executeSingleRun_total)
  next
    case False
    have ne: "results \<noteq> []" using agg aggregateResults_empty by (cases results) auto
    have wf: "\<forall>r \<in> set results. length (stages r) = 5 \<and> (\<forall>st \<in> set (stages r). 0 \<le> BenchmarkStage.timeMs st)"
      using runs executeSingleRun_wf by blast
    have five: "(0::nat) < 5" by simp
    from agg have st: "stages r = map (\<lambda>(st, j). st\<lparr> BenchmarkStage.timeMs := meanStageTime results j \<rparr>)
                        (zip (stages (hd results)) [0 ..< 5])"
      and tot: "BenchmarkTotals.timeMs (totals r) = mean (map (\<lambda>r. BenchmarkTotals.timeMs (totals r)) results)"
      unfolding aggregateResults_many [OF False ne wf five] by auto
    have "hd results \<in> set results" using ne by simp
    with wf have "length (stages (hd results)) = 5" by blast
    from aggregated_times [OF st this] tot mean_totals_is_sum_of_means [OF runs]
    show ?thesis by simp
  qed
  then show ?thesis by simp
qed

text \<open>
  The aggregate of three stubbed runs.
\<close>

theorem C6_total_is_sum_of_stages_witness:
  "\<exists>r s'. executeBenchmark (stub_env True) (stub_config 3) stub_world = (Inr r, s')
     \<and> BenchmarkTotals.timeMs (totals r) = sum_list (map BenchmarkStage.timeMs (stages r))
     \<and> \<bar>BenchmarkTotals.timeMs (totals r) - sum_list (map BenchmarkStage.timeMs (stages r))\<bar> \<le> 1 / 100"
proof -
  obtain r s' where ev: "executeBenchmark (stub_env True) (stub_config 3) stub_world = (Inr r, s')"
    using stub_session_returns [of 3 stub_world] by auto
  from C6_total_is_sum_of_stages [OF ev] ev show ?thesis
    by (intro exI [of _ r] exI [of _ s']) simp
qed

text \<open>
  C10. In the aggregate of more than one run, each stage is the stage of the first run at the
  same index with only \<open>timeMs\<close> replaced by the mean: the memory snapshots (before, after,
  delta), the success flag, the error text and the name are those of the first run.
\<close>

theorem C10_aggregate_keeps_first_run_fields:
  assumes "executeBenchmark env config s = (Inr agg, s')"
    and "1 < BenchmarkConfiguration.runs config"
  shows "\<exists>results s1.
      runLoop env config 0 [] (observed config s) = (Inr results, s1)
    \<and> length (stages agg) = 5 \<and> length (stages (results ! 0)) = 5
    \<and> (\<forall>i < 5.
          memoryUsage (stages agg ! i) = memoryUsage (stages (results ! 0) ! i)
        \<and> success (stages agg ! i) = success (stages (results ! 0) ! i)
        \<and> BenchmarkStage.error (stages agg ! i) = BenchmarkStage.error (stages (results ! 0) ! i)
        \<and> BenchmarkStage.name (stages agg ! i) = BenchmarkStage.name (stages (results ! 0) ! i)
        \<and> stages agg ! i = (stages (results ! 0) ! i)
              \<lparr> BenchmarkStage.timeMs := mean (map (\<lambda>r. BenchmarkStage.timeMs (stages r ! i)) results) \<rparr>)"
proof -
  from executeBenchmark_aggregated [OF assms] obtain results s1 where
    loop: "runLoop env config 0 [] (observed config s) = (Inr results, s1)" and
    two: "2 \<le> length results" and
    runs: "\<forall>r \<in> set results. \<exists>sa sb. executeSingleRun env config sa = (Inr r, sb)" and
    st: "stages agg = map (\<lambda>(st, j). st\<lparr> BenchmarkStage.timeMs := meanStageTime results j \<rparr>)
                        (zip (stages (hd results)) [0 ..< 5])"
    by blast
  note first = first_run_stages [OF two runs]
  have l5: "length (stages agg) = 5" unfolding st using first(1) by simp
  have nth: "stages agg ! i = (stages (results ! 0) ! i)
              \<lparr> BenchmarkStage.timeMs := mean (map (\<lambda>r. BenchmarkStage.timeMs (stages r ! i)) results) \<rparr>"
    if "i < 5" for i
    using stages_aggregated_nth [OF st first(1) that] first(2) by (simp add: meanStageTime_def)
  show ?thesis
    apply (rule exI [of _ results], rule exI [of _ s1])
    using loop l5 first nth by simp
qed

text \<open>
  The aggregate of two stubbed runs.
\<close>

theorem C10_aggregate_keeps_first_run_fields_witness:
  "\<exists>agg s' results s1.
      executeBenchmark (stub_env True) (stub_config 2) stub_world = (Inr agg, s')
    \<and> 1 < BenchmarkConfiguration.runs (stub_config 2)
    \<and> runLoop (stub_env True) (stub_config 2) 0 [] (observed (stub_config 2) stub_world) = (Inr results, s1)
    \<and> (\<forall>i < 5. memoryUsage (stages agg ! i) = memoryUsage (stages (results ! 0) ! i)
               \<and> success (stages agg ! i) = success (stages (results ! 0) ! i)
               \<and> BenchmarkStage.error (stages agg ! i) = BenchmarkStage.error (stages (results ! 0) ! i))"
proof -
  have two: "1 < BenchmarkConfiguration.runs (stub_config 2)" by simp
  obtain agg s' where ev: "executeBenchmark (stub_env True) (stub_config 2) stub_world = (Inr agg, s')"
    using stub_session_returns [of 2 stub_world] by auto
  from C10_aggregate_keeps_first_run_fields [OF ev two] obtain results s1 where
    "runLoop (stub_env True) (stub_config 2) 0 [] (observed (stub_config 2) stub_world) = (Inr results, s1)"
    "\<forall>i < 5. memoryUsage (stages agg ! i) = memoryUsage (stages (results ! 0) ! i)
               \<and> success (stages agg ! i) = success (stages (results ! 0) ! i)
               \<and> BenchmarkStage.error (stages agg ! i) = BenchmarkStage.error (stages (results ! 0) ! i)"
    by blast
  with ev two show ?thesis by blast
qed

subsection \<open>Failures and the cleanup\<close>

lemmas session_defs = executeBenchmark_eq executeBenchmark_try_def runLoop.simps
  aggregateResults_def sleep_def startObserving_def stopObserving_def cleanup_eq
  afterCleanup_def cleanupRejection_def messageOf_def

lemma afterCleanup_Inl:
  "afterCleanup rej (Inl e) = Inl e
   \<or> afterCleanup rej (Inl e) = Inl (cannotRead ''undefined'' ''message'')
   \<or> afterCleanup rej (Inl e) = Inl (cannotRead ''null'' ''message'')"
  by (auto simp: afterCleanup_def messageOf_def split: option.splits sum.splits thrown.splits)

lemma cleanupEvents_count:
  "length (filter (\<lambda>ev. ev = Call Cleanup) (cleanupEvents b rej)) = 1"
  by (simp add: cleanupEvents_def split: option.splits sum.splits)

lemma cleanupEvents_quiet:
  "verificationFailedLog \<notin> set (cleanupEvents b rej)"
  "Rejected op v \<in> set (cleanupEvents b rej) \<Longrightarrow> op = Cleanup"
  "StageThrew n t0 t1 e \<notin> set (cleanupEvents b rej)"
  by (auto simp: cleanupEvents_def verificationFailedLog_def
        split: option.splits if_splits sum.splits)

lemma session_cleanup_once:
  assumes "executeBenchmark env config s = (out, s')"
  shows "\<exists>d s1 out1. executeBenchmark_try env config s = (out1, s1)
     \<and> out = afterCleanup (cleanupRejection env (ext s1)) out1
     \<and> trace s' = trace s @ d @ cleanupEvents (isObserving s1) (cleanupRejection env (ext s1))
     \<and> Call Cleanup \<notin> set d
     \<and> length (filter (\<lambda>ev. ev = Call Cleanup) (trace s'))
         = length (filter (\<lambda>ev. ev = Call Cleanup) (trace s)) + 1"
proof -
  from session_trace [OF assms] obtain d s1 out1 where
    t: "executeBenchmark_try env config s = (out1, s1)" and
    out: "out = afterCleanup (cleanupRejection env (ext s1)) out1" and
    tr: "trace s' = trace s @ d @ cleanupEvents (isObserving s1) (cleanupRejection env (ext s1))" and
    g: "\<forall>ev \<in> set d. relevant ev \<longrightarrow>
           (\<exists>e. out1 = Inl e
              \<and> explains (monotonicClock env) (BenchmarkConfiguration.circuitName config) ev e)"
    by blast
  have none: "Call Cleanup \<notin> set d"
  proof
    assume "Call Cleanup \<in> set d"
    with g have "\<exists>e. out1 = Inl e
        \<and> explains (monotonicClock env) (BenchmarkConfiguration.circuitName config) (Call Cleanup) e"
      by fastforce
    then show False by simp
  qed
  then have "filter (\<lambda>ev. ev = Call Cleanup) d = []" by (auto simp: filter_empty_conv)
  then have "length (filter (\<lambda>ev. ev = Call Cleanup) (trace s'))
         = length (filter (\<lambda>ev. ev = Call Cleanup) (trace s)) + 1"
    unfolding tr by (simp add: cleanupEvents_count)
  with t out tr none show ?thesis by blast
qed

lemma stub_false_try:
  "fst (executeBenchmark_try ((stub_env False)\<lparr> proofSystemRepository_cleanup := c \<rparr>)
          (stub_config 1) stub_world)
     = Inl (new_Error [Str ''Proof verification failed''])
   \<and> verificationFailedLog \<in> set (trace (snd (executeBenchmark_try
         ((stub_env False)\<lparr> proofSystemRepository_cleanup := c \<rparr>) (stub_config 1) stub_world)))"
  by (simp add: executeBenchmark_try_def runLoop.simps startObserving_def run_defs stub_env_def
        stub_config_def stub_memory_def stub_world_def verificationFailedLog_def
        split: prod.splits sum.splits)

lemma stub_false_session:
  assumes "\<And>x. afterCleanup
                  (cleanupRejection ((stub_env False)\<lparr> proofSystemRepository_cleanup := c \<rparr>) x)
                  (Inl (new_Error [Str ''Proof verification failed''])) = out"
  shows "\<exists>s'. executeBenchmark ((stub_env False)\<lparr> proofSystemRepository_cleanup := c \<rparr>)
                (stub_config 1) stub_world = (out, s')
           \<and> verificationFailedLog \<in> set (trace s')
           \<and> length (filter (\<lambda>ev. ev = Call Cleanup) (trace s')) = 1"
proof -
  define env where "env = (stub_env False)\<lparr> proofSystemRepository_cleanup := c \<rparr>"
  obtain o' s' where ev: "executeBenchmark env (stub_config 1) stub_world = (o', s')"
    by (cases "executeBenchmark env (stub_config 1) stub_world")
  from session_cleanup_once [OF ev] obtain d s1 out1 where
    t: "executeBenchmark_try env (stub_config 1) stub_world = (out1, s1)" and
    out: "o' = afterCleanup (cleanupRejection env (ext s1)) out1" and
    tr: "trace s' = trace stub_world @ d
           @ cleanupEvents (isObserving s1) (cleanupRejection env (ext s1))" and
    one: "length (filter (\<lambda>ev. ev = Call Cleanup) (trace s'))
         = length (filter (\<lambda>ev. ev = Call Cleanup) (trace stub_world)) + 1"
    by blast
  from session_trace [OF ev] t have tr1: "\<exists>d. trace s1 = trace stub_world @ d \<and>
      trace s' = trace stub_world @ d
           @ cleanupEvents (isObserving s1) (cleanupRejection env (ext s1))" by auto
  from stub_false_try [of c] t have o1: "out1 = Inl (new_Error [Str ''Proof verification failed''])"
    and lg: "verificationFailedLog \<in> set (trace s1)" by (simp_all add: env_def)
  from out o1 assms have "o' = out" by (simp add: env_def)
  moreover from lg tr1 have "verificationFailedLog \<in> set (trace s')" by auto
  moreover from one have "length (filter (\<lambda>ev. ev = Call Cleanup) (trace s')) = 1"
    by (simp add: stub_world_def)
  ultimately show ?thesis using ev unfolding env_def by blast
qed



lemma stub_false_resolved:
  "\<exists>s'. executeBenchmark (stub_env False) (stub_config 1) stub_world
           = (Inl (new_Error [Str ''Proof verification failed'']), s')
        \<and> verificationFailedLog \<in> set (trace s')"
proof -
  have same: "(stub_env False)\<lparr> proofSystemRepository_cleanup := (\<lambda>t. (Inr (), t + 3)) \<rparr> = stub_env False"
    by (simp add: stub_env_def)
  have "afterCleanup (cleanupRejection (stub_env False) x)
          (Inl (new_Error [Str ''Proof verification failed'']))
        = Inl (new_Error [Str ''Proof verification failed''])" for x
    by (simp add: afterCleanup_def cleanupRejection_def stub_env_def)
  from stub_false_session [of "\<lambda>t. (Inr (), t + 3)", unfolded same, OF this]
  show ?thesis by blast
qed

text \<open>
  C1 (as stated, refuted). With a verification that resolves to \<open>false\<close> the stubbed session
  rejects, but with a plain \<open>Error\<close> that has no code, not with a \<open>ProofVerificationError\<close>.
\<close>

theorem C1_counterexample:
  "fst (executeBenchmark (stub_env False) (stub_config 1) stub_world)
     = Inl (new_Error [Str ''Proof verification failed''])
   \<and> err_class (new_Error [Str ''Proof verification failed'']) = Error
   \<and> err_class (new_Error [Str ''Proof verification failed'']) \<noteq> ProofVerificationError
   \<and> err_code (new_Error [Str ''Proof verification failed'']) = None"
proof -
  from stub_false_resolved obtain s' where
    "executeBenchmark (stub_env False) (stub_config 1) stub_world
       = (Inl (new_Error [Str ''Proof verification failed'']), s')" by blast
  then show ?thesis by (simp add: new_Error_def)
qed

lemma verifyProof_logs_verdict:
  "verifyProof env p s =
     (case proofSystemRepository_verifyProof env p (ext s) of
        (Inr v, x') \<Rightarrow>
          (Inr v, s\<lparr> ext := x', trace := trace s @
             [Log ''debug'' [Str ''Verifying proof ('', Num (ProofResult_proofSize p),
                             Str '' bytes)''],
              Call VerifyProof, Resolved VerifyProof,
              Log ''debug'' [Str ''Proof verification '',
                             Str (if v then ''succeeded'' else ''failed'')]] \<rparr>)
      | (Inl v, x') \<Rightarrow>
          (Inl (new_ProofVerificationError [Str ''Failed to verify proof''] (asCause v)),
           s\<lparr> ext := x', trace := trace s @
             [Log ''debug'' [Str ''Verifying proof ('', Num (ProofResult_proofSize p),
                             Str '' bytes)''],
              Call VerifyProof, Rejected VerifyProof v] \<rparr>))"
  by (simp add: verifyProof_def try_catch_def io_bind_def await_repo_def io_defs
        split: prod.splits sum.splits)

lemma completed_run_verified:
  assumes "executeSingleRun env config sa = (Inr r, sb)"
  shows "\<exists>p x. proofSystemRepository_verifyProof env p x = (Inr True, ext sb)"
  using executeSingleRun_path [OF assms] by blast

text \<open>
  C1 (amended). If, in a session, a verification resolves to \<open>false\<close> (which the proof service
  logs, and logs only then: \<open>verifyProof_logs_verdict\<close>), the session rejects; with a clock
  that does not run backwards, and a cleanup that is not rejected with \<open>undefined\<close> or \<open>null\<close>,
  it rejects with the plain \<open>Error\<close> \<open>Proof verification failed\<close>. Whenever the session returns
  a result, no verification resolved to \<open>false\<close>, and every run that was collected is a
  completed run in which the repository's verification resolved to \<open>true\<close>.
\<close>

theorem C1_failed_verification_rejects:
  assumes "executeBenchmark env config s = (out, s')"
  shows "\<exists>d. trace s' = trace s @ d
     \<and> (verificationFailedLog \<in> set d \<longrightarrow>
           (\<exists>e. out = Inl e)
         \<and> (monotonicClock env \<and> readableCleanup env \<longrightarrow>
               out = Inl (new_Error [Str ''Proof verification failed''])))
     \<and> (\<forall>r. out = Inr r \<longrightarrow>
           verificationFailedLog \<notin> set d
         \<and> (\<exists>results s1. runLoop env config 0 [] (observed config s) = (Inr results, s1)
               \<and> results \<noteq> []
               \<and> (\<forall>r' \<in> set results. \<exists>sa sb p x.
                     executeSingleRun env config sa = (Inr r', sb)
                   \<and> proofSystemRepository_verifyProof env p x = (Inr True, ext sb))))"
proof -
  from session_trace [OF assms] obtain d s1 out1 where
    t: "executeBenchmark_try env config s = (out1, s1)" and
    out: "out = afterCleanup (cleanupRejection env (ext s1)) out1" and
    tr: "trace s' = trace s @ d @ cleanupEvents (isObserving s1) (cleanupRejection env (ext s1))" and
    g: "\<forall>ev \<in> set d. relevant ev \<longrightarrow>
           (\<exists>e. out1 = Inl e
              \<and> explains (monotonicClock env) (BenchmarkConfiguration.circuitName config) ev e)"
    by blast
  let ?d = "d @ cleanupEvents (isObserving s1) (cleanupRejection env (ext s1))"
  have expl: "\<exists>e. out1 = Inl e
        \<and> explains (monotonicClock env) (BenchmarkConfiguration.circuitName config)
            verificationFailedLog e"
    if "verificationFailedLog \<in> set ?d"
  proof -
    from that have "verificationFailedLog \<in> set d" using cleanupEvents_quiet(1) by auto
    with g show ?thesis by (fastforce simp: verificationFailedLog_def)
  qed
  have rejects: "\<exists>e. out = Inl e" if "verificationFailedLog \<in> set ?d"
  proof -
    from expl [OF that] obtain e where "out1 = Inl e" by blast
    with out afterCleanup_Inl [of "cleanupRejection env (ext s1)" e] show ?thesis by auto
  qed
  have fail: "out = Inl (new_Error [Str ''Proof verification failed''])"
    if "verificationFailedLog \<in> set ?d" and "monotonicClock env" and "readableCleanup env"
  proof -
    from expl [OF that(1)] that(2) have "out1 = Inl (new_Error [Str ''Proof verification failed''])"
      by (auto simp: verificationFailedLog_def)
    with out afterCleanup_readable [OF that(3)] show ?thesis by simp
  qed
  have ok: "verificationFailedLog \<notin> set ?d
         \<and> (\<exists>results s1. runLoop env config 0 [] (observed config s) = (Inr results, s1)
               \<and> results \<noteq> []
               \<and> (\<forall>r' \<in> set results. \<exists>sa sb p x.
                     executeSingleRun env config sa = (Inr r', sb)
                   \<and> proofSystemRepository_verifyProof env p x = (Inr True, ext sb)))"
    if "out = Inr r" for r
  proof -
    from that rejects have a: "verificationFailedLog \<notin> set ?d" by auto
    from assms that executeBenchmark_Inr obtain results s1 s2 where
      loop: "runLoop env config 0 [] (observed config s) = (Inr results, s1)" and
      agg: "aggregateResults env results config s1 = (Inr r, s2)" by blast
    have ne: "results \<noteq> []" using agg aggregateResults_empty by (cases results) auto
    from runLoop_results [OF loop] have
      "\<forall>r' \<in> set results. \<exists>sa sb. executeSingleRun env config sa = (Inr r', sb)" by auto
    with completed_run_verified have
      "\<forall>r' \<in> set results. \<exists>sa sb p x.
                     executeSingleRun env config sa = (Inr r', sb)
                   \<and> proofSystemRepository_verifyProof env p x = (Inr True, ext sb)"
      by meson
    with a loop ne show ?thesis by blast
  qed
  have a: "trace s' = trace s @ ?d" using tr by simp
  have b: "verificationFailedLog \<in> set ?d \<longrightarrow>
           (\<exists>e. out = Inl e)
         \<and> (monotonicClock env \<and> readableCleanup env \<longrightarrow>
               out = Inl (new_Error [Str ''Proof verification failed'']))"
    using rejects fail by blast
  have c: "\<forall>r. out = Inr r \<longrightarrow>
           verificationFailedLog \<notin> set ?d
         \<and> (\<exists>results s1. runLoop env config 0 [] (observed config s) = (Inr results, s1)
               \<and> results \<noteq> []
               \<and> (\<forall>r' \<in> set results. \<exists>sa sb p x.
                     executeSingleRun env config sa = (Inr r', sb)
                   \<and> proofSystemRepository_verifyProof env p x = (Inr True, ext sb)))"
    using ok by blast
  show ?thesis by (rule exI [of _ ?d]) (intro conjI a b c)
qed

text \<open>
  The stubbed sessions with the verdicts \<open>false\<close> and \<open>true\<close>; the clock of the stub is
  monotonic and its cleanup resolves.
\<close>

theorem C1_failed_verification_rejects_witness:
  "monotonicClock (stub_env False) \<and> readableCleanup (stub_env False)
   \<and> (\<exists>s'. executeBenchmark (stub_env False) (stub_config 1) stub_world
            = (Inl (new_Error [Str ''Proof verification failed'']), s')
        \<and> verificationFailedLog \<in> set (trace s'))
   \<and> (\<exists>r s'. executeBenchmark (stub_env True) (stub_config 1) stub_world = (Inr r, s')
        \<and> verificationFailedLog \<notin> set (trace s'))"
proof -
  from stub_false_resolved obtain s' where
    ev: "executeBenchmark (stub_env False) (stub_config 1) stub_world
            = (Inl (new_Error [Str ''Proof verification failed'']), s')"
    and lg: "verificationFailedLog \<in> set (trace s')"
    by blast
  from C1_failed_verification_rejects [OF ev] lg
  have a: "\<exists>s'. executeBenchmark (stub_env False) (stub_config 1) stub_world
            = (Inl (new_Error [Str ''Proof verification failed'']), s')
        \<and> verificationFailedLog \<in> set (trace s')"
    using ev by blast
  obtain r s'' where ev2: "executeBenchmark (stub_env True) (stub_config 1) stub_world = (Inr r, s'')"
    using stub_session_returns [of 1 stub_world] by auto
  from C1_failed_verification_rejects [OF ev2] have "verificationFailedLog \<notin> set (trace s'')"
    by (auto simp: stub_world_def)
  with ev2 a stub_monotonic stub_readable show ?thesis by blast
qed

lemma stub_init_session:
  "fst (executeBenchmark (stub_env_init_fails why) (stub_config 1) stub_world)
     = Inl (new_Error [Str ''Stage '', Str ''backend-init'', Str '' failed after '', Num 2,
                        Str ''ms: '', Str ''Proof generation failed: '',
                        Str ''Failed to initialize proof system''])"
  by (simp add: session_defs run_defs stub_env_init_fails_def stub_env_def stub_config_def
        stub_memory_def stub_world_def new_ProofGenerationError_def
        split: prod.splits sum.splits)

lemma stub_inputs_session:
  "fst (executeBenchmark (stub_env_inputs_fail why) (stub_config 1) stub_world)
     = Inl (new_CircuitLoadError [Str ''Failed to load test inputs for '', Str ''simple-hash'']
              (Some (ErrorObject (new_Error [Str why]))))
   \<and> Rejected GetTestInputs (ErrorObject (new_Error [Str why]))
       \<in> set (trace (snd (executeBenchmark (stub_env_inputs_fail why) (stub_config 1) stub_world)))"
  by (simp add: session_defs run_defs stub_env_inputs_fail_def stub_env_def stub_config_def
        stub_memory_def stub_world_def asCause_def
        split: prod.splits sum.splits)

lemma stub_no_circuit_session:
  "fst (executeBenchmark stub_env_no_circuit (stub_config 1) stub_world)
     = Inl (new_Error [Str ''Stage '', Str ''circuit-load'', Str '' failed after '', Num 1,
                        Str ''ms: '', Str ''Circuit '', Str [CHR 0x27], Str ''simple-hash'',
                        Str [CHR 0x27], Str '' not found''])
   \<and> StageThrew ''circuit-load'' 0 1 (new_CircuitNotFoundError ''simple-hash'' None)
       \<in> set (trace (snd (executeBenchmark stub_env_no_circuit (stub_config 1) stub_world)))"
  by (simp add: session_defs run_defs stub_env_no_circuit_def stub_env_def stub_config_def
        stub_memory_def stub_world_def new_CircuitNotFoundError_def
        split: prod.splits sum.splits)

lemma stub_no_circuit_load:
  "loadCircuit stub_env_no_circuit ''simple-hash''
     (stub_world\<lparr> trace := trace stub_world @ [Mark (''circuit-load'' @ ''-start'')] \<rparr>)
   = (Inl (new_CircuitNotFoundError ''simple-hash'' None),
      \<lparr> ext = 1,
        trace = [Mark ''circuit-load-start'',
                 Log ''debug'' [Str ''Loading circuit: '', Str ''simple-hash''],
                 Call Exists, Resolved Exists],
        isObserving = False \<rparr>)"
  by (simp add: loadCircuit_def try_catch_def io_bind_def await_repo_def io_defs
        stub_env_no_circuit_def stub_env_def stub_world_def new_CircuitNotFoundError_def)

text \<open>
  C3 (as stated, refuted). The profiler does not keep the original failure: two different
  failures of \<open>ProofService.initialize\<close>, which differ in their cause, are re-thrown as the
  same plain \<open>Error\<close>, which has no cause; and two sessions whose backend fails to initialize
  for different reasons reject with the same error.
\<close>

theorem C3_counterexample:
  "stub_init_failure ''out of memory'' \<noteq> stub_init_failure ''invalid bytecode''
   \<and> fst (timeStage (stub_env True) ''backend-init''
            (io_throw (stub_init_failure ''out of memory'') :: (bool, real) io) stub_world)
       = Inl (new_Error [Str ''Stage '', Str ''backend-init'', Str '' failed after '', Num 0,
                          Str ''ms: '', Str ''Proof generation failed: '',
                          Str ''Failed to initialize proof system''])
   \<and> fst (timeStage (stub_env True) ''backend-init''
            (io_throw (stub_init_failure ''invalid bytecode'') :: (bool, real) io) stub_world)
       = Inl (new_Error [Str ''Stage '', Str ''backend-init'', Str '' failed after '', Num 0,
                          Str ''ms: '', Str ''Proof generation failed: '',
                          Str ''Failed to initialize proof system''])
   \<and> err_cause (new_Error [Str ''Stage '', Str ''backend-init'', Str '' failed after '', Num 0,
                          Str ''ms: '', Str ''Proof generation failed: '',
                          Str ''Failed to initialize proof system'']) = None
   \<and> fst (executeBenchmark (stub_env_init_fails ''out of memory'') (stub_config 1) stub_world)
       = fst (executeBenchmark (stub_env_init_fails ''invalid bytecode'') (stub_config 1) stub_world)"
  by (simp add: stub_init_session)
     (simp add: timeStage_eq io_throw_def stub_init_failure_def new_ProofGenerationError_def
        new_Error_def stub_env_def stub_world_def)

text \<open>
  C3 (amended). When the operation of a stage throws, the profiler throws a new plain
  \<open>Error\<close> whose message is made of the name of the stage, the time elapsed from the start of
  the stage to the catch and the message of the error that was thrown (the error object, its
  class, its code and its cause are not kept), and it records what it caught. Whenever the
  profiler catches the error of an operation in a session, whatever the stage and the
  operation, the session rejects; with a cleanup that is not rejected with \<open>undefined\<close> or
  \<open>null\<close>, it rejects with exactly the error that the profiler made: the name of the stage,
  the time between the two readings of the clock, the message of the error.
\<close>

theorem C3_stage_failure_rejects:
  assumes "executeBenchmark env config s = (out, s')"
    and "operation (s0\<lparr> trace := trace s0 @ [Mark (n @ ''-start'')] \<rparr>) = (Inl e0, s1)"
  shows "timeStage env n operation s0
           = (Inl (new_Error ([Str ''Stage '', Str n, Str '' failed after '',
                               Num (performance_now env (ext s1) - performance_now env (ext s0)),
                               Str ''ms: ''] @ err_message e0)),
              s1\<lparr> trace := trace s1 @
                    [StageThrew n (performance_now env (ext s0)) (performance_now env (ext s1)) e0,
                     Mark (n @ ''-end''), Measure n (n @ ''-start'') (n @ ''-end'')] \<rparr>)
     \<and> (\<exists>d. trace s' = trace s @ d
          \<and> (\<forall>k t0 t1 e. StageThrew k t0 t1 e \<in> set d \<longrightarrow>
                (\<exists>e'. out = Inl e')
              \<and> (readableCleanup env \<longrightarrow>
                    out = Inl (new_Error ([Str ''Stage '', Str k, Str '' failed after '',
                                           Num (t1 - t0), Str ''ms: ''] @ err_message e)))))"
proof -
  have b: "timeStage env n operation s0
           = (Inl (new_Error ([Str ''Stage '', Str n, Str '' failed after '',
                               Num (performance_now env (ext s1) - performance_now env (ext s0)),
                               Str ''ms: ''] @ err_message e0)),
              s1\<lparr> trace := trace s1 @
                    [StageThrew n (performance_now env (ext s0)) (performance_now env (ext s1)) e0,
                     Mark (n @ ''-end''), Measure n (n @ ''-start'') (n @ ''-end'')] \<rparr>)"
    using assms(2) by (simp add: timeStage_eq)
  from session_trace [OF assms(1)] obtain d sa out1 where
    t: "executeBenchmark_try env config s = (out1, sa)" and
    out: "out = afterCleanup (cleanupRejection env (ext sa)) out1" and
    tr: "trace s' = trace s @ d @ cleanupEvents (isObserving sa) (cleanupRejection env (ext sa))" and
    g: "\<forall>ev \<in> set d. relevant ev \<longrightarrow>
           (\<exists>e. out1 = Inl e
              \<and> explains (monotonicClock env) (BenchmarkConfiguration.circuitName config) ev e)"
    by blast
  let ?d = "d @ cleanupEvents (isObserving sa) (cleanupRejection env (ext sa))"
  have expl: "out1 = Inl (new_Error ([Str ''Stage '', Str k, Str '' failed after '',
                                    Num (t1 - t0), Str ''ms: ''] @ err_message e))"
    if "StageThrew k t0 t1 e \<in> set ?d" for k t0 t1 e
  proof -
    from that have "StageThrew k t0 t1 e \<in> set d" using cleanupEvents_quiet(3) by auto
    with g have "\<exists>e'. out1 = Inl e'
        \<and> explains (monotonicClock env) (BenchmarkConfiguration.circuitName config)
            (StageThrew k t0 t1 e) e'"
      by fastforce
    then show ?thesis by simp
  qed
  have rejects: "\<exists>e'. out = Inl e'" if "StageThrew k t0 t1 e \<in> set ?d" for k t0 t1 e
    using expl [OF that] out
      afterCleanup_Inl [of "cleanupRejection env (ext sa)"
        "new_Error ([Str ''Stage '', Str k, Str '' failed after '',
                     Num (t1 - t0), Str ''ms: ''] @ err_message e)"]
    by auto
  have exact: "out = Inl (new_Error ([Str ''Stage '', Str k, Str '' failed after '',
                                    Num (t1 - t0), Str ''ms: ''] @ err_message e))"
    if "StageThrew k t0 t1 e \<in> set ?d" and "readableCleanup env" for k t0 t1 e
    using expl [OF that(1)] out afterCleanup_readable [OF that(2)] by simp
  have a: "trace s' = trace s @ ?d" using tr by simp
  have c: "\<forall>k t0 t1 e. StageThrew k t0 t1 e \<in> set ?d \<longrightarrow>
                (\<exists>e'. out = Inl e')
              \<and> (readableCleanup env \<longrightarrow>
                    out = Inl (new_Error ([Str ''Stage '', Str k, Str '' failed after '',
                                           Num (t1 - t0), Str ''ms: ''] @ err_message e)))"
    using rejects exact by blast
  have "\<exists>d. trace s' = trace s @ d
          \<and> (\<forall>k t0 t1 e. StageThrew k t0 t1 e \<in> set d \<longrightarrow>
                (\<exists>e'. out = Inl e')
              \<and> (readableCleanup env \<longrightarrow>
                    out = Inl (new_Error ([Str ''Stage '', Str k, Str '' failed after '',
                                           Num (t1 - t0), Str ''ms: ''] @ err_message e))))"
    by (rule exI [of _ ?d]) (intro conjI a c)
  with b show ?thesis by (rule conjI)
qed

text \<open>
  The stubbed session whose circuit does not exist: the repository resolves to \<open>false\<close> after
  1 ms, the circuit service throws a \<open>CircuitNotFoundError\<close>, the profiler catches it in the
  load stage, and the session rejects with the error of the profiler.
\<close>

theorem C3_stage_failure_rejects_witness:
  "readableCleanup stub_env_no_circuit
   \<and> loadCircuit stub_env_no_circuit ''simple-hash''
       (stub_world\<lparr> trace := trace stub_world @ [Mark (''circuit-load'' @ ''-start'')] \<rparr>)
     = (Inl (new_CircuitNotFoundError ''simple-hash'' None),
        \<lparr> ext = 1,
          trace = [Mark ''circuit-load-start'',
                   Log ''debug'' [Str ''Loading circuit: '', Str ''simple-hash''],
                   Call Exists, Resolved Exists],
          isObserving = False \<rparr>)
   \<and> fst (timeStage stub_env_no_circuit ''circuit-load''
            (loadCircuit stub_env_no_circuit ''simple-hash'') stub_world)
       = Inl (new_Error [Str ''Stage '', Str ''circuit-load'', Str '' failed after '', Num 1,
                          Str ''ms: '', Str ''Circuit '', Str [CHR 0x27], Str ''simple-hash'',
                          Str [CHR 0x27], Str '' not found''])
   \<and> (\<exists>s'. executeBenchmark stub_env_no_circuit (stub_config 1) stub_world
          = (Inl (new_Error [Str ''Stage '', Str ''circuit-load'', Str '' failed after '', Num 1,
                        Str ''ms: '', Str ''Circuit '', Str [CHR 0x27], Str ''simple-hash'',
                        Str [CHR 0x27], Str '' not found'']), s')
        \<and> StageThrew ''circuit-load'' 0 1 (new_CircuitNotFoundError ''simple-hash'' None)
            \<in> set (trace s'))"
proof -
  have rd: "readableCleanup stub_env_no_circuit"
    by (simp add: readableCleanup_def stub_env_no_circuit_def stub_env_def)
  obtain out s' where
    ev: "executeBenchmark stub_env_no_circuit (stub_config 1) stub_world = (out, s')"
    by (cases "executeBenchmark stub_env_no_circuit (stub_config 1) stub_world")
  with stub_no_circuit_session have
    th: "StageThrew ''circuit-load'' 0 1 (new_CircuitNotFoundError ''simple-hash'' None)
            \<in> set (trace s')" by simp
  note c3 = C3_stage_failure_rejects
         [where operation = "loadCircuit stub_env_no_circuit ''simple-hash''"
            and ?s0.0 = stub_world and n = "''circuit-load''",
          OF ev stub_no_circuit_load]
  from c3 have ts: "fst (timeStage stub_env_no_circuit ''circuit-load''
            (loadCircuit stub_env_no_circuit ''simple-hash'') stub_world)
       = Inl (new_Error [Str ''Stage '', Str ''circuit-load'', Str '' failed after '', Num 1,
                          Str ''ms: '', Str ''Circuit '', Str [CHR 0x27], Str ''simple-hash'',
                          Str [CHR 0x27], Str '' not found''])"
    by (simp add: stub_env_no_circuit_def stub_env_def stub_world_def
          new_CircuitNotFoundError_def)
  from c3 obtain d where
    d: "trace s' = trace stub_world @ d"
       "\<forall>k t0 t1 e. StageThrew k t0 t1 e \<in> set d \<longrightarrow>
                (\<exists>e'. out = Inl e')
              \<and> (readableCleanup stub_env_no_circuit \<longrightarrow>
                    out = Inl (new_Error ([Str ''Stage '', Str k, Str '' failed after '',
                                           Num (t1 - t0), Str ''ms: ''] @ err_message e)))"
    by blast
  from th d(1) have "StageThrew ''circuit-load'' 0 1 (new_CircuitNotFoundError ''simple-hash'' None)
            \<in> set d" by (simp add: stub_world_def)
  with d(2) rd have "out = Inl (new_Error ([Str ''Stage '', Str ''circuit-load'',
      Str '' failed after '', Num (1 - 0), Str ''ms: '']
      @ err_message (new_CircuitNotFoundError ''simple-hash'' None)))" by blast
  then have "out = Inl (new_Error [Str ''Stage '', Str ''circuit-load'', Str '' failed after '', Num 1,
                        Str ''ms: '', Str ''Circuit '', Str [CHR 0x27], Str ''simple-hash'',
                        Str [CHR 0x27], Str '' not found''])"
    by (simp add: new_CircuitNotFoundError_def)
  with ev th have "\<exists>s'. executeBenchmark stub_env_no_circuit (stub_config 1) stub_world
          = (Inl (new_Error [Str ''Stage '', Str ''circuit-load'', Str '' failed after '', Num 1,
                        Str ''ms: '', Str ''Circuit '', Str [CHR 0x27], Str ''simple-hash'',
                        Str [CHR 0x27], Str '' not found'']), s')
        \<and> StageThrew ''circuit-load'' 0 1 (new_CircuitNotFoundError ''simple-hash'' None)
            \<in> set (trace s')" by blast
  with rd stub_no_circuit_load ts show ?thesis by (intro conjI)
qed

lemma stageFailureOf_cannotRead: "stageFailureOf (cannotRead v p) = None"
  by (simp add: cannotRead_def new_TypeError_def)

text \<open>
  C9. In a completed run the test inputs are fetched after the load stage has been measured
  and before the init stage is marked (see \<open>runEvents\<close>); no stage is recorded for the fetch;
  the time of the load stage ends where the fetch starts, and the total time of the run is the
  time elapsed over the run less the time elapsed over the fetch. In a session in which the
  fetch is rejected, the session rejects with an error that carries no stage name and no
  elapsed time: with a cleanup that is not rejected with \<open>undefined\<close> or \<open>null\<close>, the
  \<open>CircuitLoadError\<close> of the circuit service.
\<close>

theorem C9_test_inputs_outside_the_stages:
  assumes "executeSingleRun env config s = (Inr r, s')"
    and "executeBenchmark env' config' z = (out, z')"
  shows "map BenchmarkStage.name (stages r) =
           [''circuit-load'', ''backend-init'', ''witness-generate'', ''proof-generate'',
            ''proof-verify'']
     \<and> (\<exists>x1 x2 inputs d.
           circuitRepository_getTestInputs env (BenchmarkConfiguration.circuitName config) x1
             = (Inr inputs, x2)
         \<and> BenchmarkStage.timeMs (stages r ! 0) = performance_now env x1 - performance_now env (ext s)
         \<and> BenchmarkTotals.timeMs (totals r)
             = (performance_now env (ext s') - performance_now env (ext s))
               - (performance_now env x2 - performance_now env x1)
         \<and> trace s' = trace s @ d
         \<and> filter (\<lambda>ev. \<not> isLog ev) d = runEvents)
     \<and> (\<exists>d. trace z' = trace z @ d
         \<and> (\<forall>v. Rejected GetTestInputs v \<in> set d \<longrightarrow>
               (\<exists>e. out = Inl e \<and> stageFailureOf e = None)
             \<and> (readableCleanup env' \<longrightarrow>
                   out = Inl (new_CircuitLoadError
                                [Str ''Failed to load test inputs for '',
                                 Str (BenchmarkConfiguration.circuitName config')] (asCause v)))
             \<and> stageFailureOf (new_CircuitLoadError
                            [Str ''Failed to load test inputs for '',
                             Str (BenchmarkConfiguration.circuitName config')] (asCause v)) = None))"
proof -
  have names: "map BenchmarkStage.name (stages r) =
           [''circuit-load'', ''backend-init'', ''witness-generate'', ''proof-generate'',
            ''proof-verify'']"
    using executeSingleRun_shape [OF assms(1)] by blast
  from executeSingleRun_path [OF assms(1)] obtain x1 x2 x3 x4 x5 inputs d where
    inp: "circuitRepository_getTestInputs env (BenchmarkConfiguration.circuitName config) x1
             = (Inr inputs, x2)" and
    times: "map BenchmarkStage.timeMs (stages r) =
         [performance_now env x1 - performance_now env (ext s),
          performance_now env x3 - performance_now env x2,
          performance_now env x4 - performance_now env x3,
          performance_now env x5 - performance_now env x4,
          performance_now env (ext s') - performance_now env x5]" and
    tr: "trace s' = trace s @ d" "filter (\<lambda>ev. \<not> isLog ev) d = runEvents"
    by auto
  have l5: "length (stages r) = 5" using arg_cong [OF times, of length] by simp
  have t0: "BenchmarkStage.timeMs (stages r ! 0) = performance_now env x1 - performance_now env (ext s)"
    using arg_cong [OF times, of "\<lambda>xs. xs ! 0"] l5 by simp
  have tot: "BenchmarkTotals.timeMs (totals r)
             = (performance_now env (ext s') - performance_now env (ext s))
               - (performance_now env x2 - performance_now env x1)"
    unfolding executeSingleRun_total [OF assms(1)] times by simp
  from session_trace [OF assms(2)] obtain d' z1 out1 where
    t: "executeBenchmark_try env' config' z = (out1, z1)" and
    out: "out = afterCleanup (cleanupRejection env' (ext z1)) out1" and
    tr': "trace z' = trace z @ d' @ cleanupEvents (isObserving z1) (cleanupRejection env' (ext z1))" and
    g: "\<forall>ev \<in> set d'. relevant ev \<longrightarrow>
           (\<exists>e. out1 = Inl e
              \<and> explains (monotonicClock env') (BenchmarkConfiguration.circuitName config') ev e)"
    by blast
  let ?d = "d' @ cleanupEvents (isObserving z1) (cleanupRejection env' (ext z1))"
  let ?e = "\<lambda>v. new_CircuitLoadError
                   [Str ''Failed to load test inputs for '',
                    Str (BenchmarkConfiguration.circuitName config')] (asCause v)"
  have none: "stageFailureOf (?e v) = None" for v
    by (simp add: new_CircuitLoadError_def)
  have expl: "out1 = Inl (?e v)" if "Rejected GetTestInputs v \<in> set ?d" for v
  proof -
    from that have "Rejected GetTestInputs v \<in> set d'" using cleanupEvents_quiet(2) by fastforce
    with g have "\<exists>e'. out1 = Inl e'
        \<and> explains (monotonicClock env') (BenchmarkConfiguration.circuitName config')
            (Rejected GetTestInputs v) e'"
      by fastforce
    then show ?thesis by auto
  qed
  have rejects: "\<exists>e. out = Inl e \<and> stageFailureOf e = None"
    if "Rejected GetTestInputs v \<in> set ?d" for v
  proof -
    from expl [OF that] out
    have o: "out = afterCleanup (cleanupRejection env' (ext z1)) (Inl (?e v))" by simp
    from afterCleanup_Inl [of "cleanupRejection env' (ext z1)" "?e v"]
    consider "out = Inl (?e v)"
      | "out = Inl (cannotRead ''undefined'' ''message'')"
      | "out = Inl (cannotRead ''null'' ''message'')"
      unfolding o by blast
    then show ?thesis
    proof cases
      case 1
      with none [of v] show ?thesis by blast
    next
      case 2
      with stageFailureOf_cannotRead show ?thesis by blast
    next
      case 3
      with stageFailureOf_cannotRead show ?thesis by blast
    qed
  qed
  have exact: "out = Inl (?e v)"
    if "Rejected GetTestInputs v \<in> set ?d" and "readableCleanup env'" for v
    using expl [OF that(1)] out afterCleanup_readable [OF that(2)] by simp
  have a: "trace z' = trace z @ ?d" using tr' by simp
  have c: "\<forall>v. Rejected GetTestInputs v \<in> set ?d \<longrightarrow>
               (\<exists>e. out = Inl e \<and> stageFailureOf e = None)
             \<and> (readableCleanup env' \<longrightarrow> out = Inl (?e v))
             \<and> stageFailureOf (?e v) = None"
  proof (intro allI impI conjI)
    fix v assume "Rejected GetTestInputs v \<in> set ?d"
    then show "\<exists>e. out = Inl e \<and> stageFailureOf e = None" by (rule rejects)
  next
    fix v assume "Rejected GetTestInputs v \<in> set ?d" and "readableCleanup env'"
    then show "out = Inl (?e v)" by (rule exact)
  next
    fix v show "stageFailureOf (?e v) = None" by (rule none)
  qed
  have last: "\<exists>d. trace z' = trace z @ d
         \<and> (\<forall>v. Rejected GetTestInputs v \<in> set d \<longrightarrow>
               (\<exists>e. out = Inl e \<and> stageFailureOf e = None)
             \<and> (readableCleanup env' \<longrightarrow> out = Inl (?e v))
             \<and> stageFailureOf (?e v) = None)"
    by (rule exI [of _ ?d]) (intro conjI a c)
  have mid: "\<exists>x1 x2 inputs d.
           circuitRepository_getTestInputs env (BenchmarkConfiguration.circuitName config) x1
             = (Inr inputs, x2)
         \<and> BenchmarkStage.timeMs (stages r ! 0) = performance_now env x1 - performance_now env (ext s)
         \<and> BenchmarkTotals.timeMs (totals r)
             = (performance_now env (ext s') - performance_now env (ext s))
               - (performance_now env x2 - performance_now env x1)
         \<and> trace s' = trace s @ d
         \<and> filter (\<lambda>ev. \<not> isLog ev) d = runEvents"
    using inp t0 tot tr by blast
  show ?thesis by (intro conjI names mid last)
qed

text \<open>
  The stubbed run takes 989 ms, of which 7 ms for the fetch: its total is 982 ms. The stubbed
  session without \<open>Prover.toml\<close> rejects with the \<open>CircuitLoadError\<close>.
\<close>

theorem C9_test_inputs_outside_the_stages_witness:
  "(\<exists>r s'. executeSingleRun (stub_env True) (stub_config 1) stub_world = (Inr r, s')
       \<and> map BenchmarkStage.name (stages r) =
           [''circuit-load'', ''backend-init'', ''witness-generate'', ''proof-generate'',
            ''proof-verify'']
       \<and> BenchmarkTotals.timeMs (totals r) = 982
       \<and> ext s' = 989)
   \<and> (\<exists>z'. executeBenchmark (stub_env_inputs_fail ''Prover.toml not found'') (stub_config 1)
              stub_world
            = (Inl (new_CircuitLoadError
                      [Str ''Failed to load test inputs for '', Str ''simple-hash'']
                      (Some (ErrorObject (new_Error [Str ''Prover.toml not found''])))), z')
       \<and> Rejected GetTestInputs (ErrorObject (new_Error [Str ''Prover.toml not found'']))
           \<in> set (trace z'))"
proof -
  obtain r s' where run: "executeSingleRun (stub_env True) (stub_config 1) stub_world = (Inr r, s')"
    using stub_run_returns by blast
  obtain z' where ev: "executeBenchmark (stub_env_inputs_fail ''Prover.toml not found'')
        (stub_config 1) stub_world
            = (Inl (new_CircuitLoadError
                      [Str ''Failed to load test inputs for '', Str ''simple-hash'']
                      (Some (ErrorObject (new_Error [Str ''Prover.toml not found''])))), z')"
    and rj: "Rejected GetTestInputs (ErrorObject (new_Error [Str ''Prover.toml not found'']))
               \<in> set (trace z')"
    using stub_inputs_session [of "''Prover.toml not found''"] by (metis prod.collapse)
  from C9_test_inputs_outside_the_stages [OF run ev] obtain x1 x2 inputs where
    names: "map BenchmarkStage.name (stages r) =
           [''circuit-load'', ''backend-init'', ''witness-generate'', ''proof-generate'',
            ''proof-verify'']" and
    inp: "circuitRepository_getTestInputs (stub_env True)
            (BenchmarkConfiguration.circuitName (stub_config 1)) x1 = (Inr inputs, x2)" and
    tot: "BenchmarkTotals.timeMs (totals r)
             = (performance_now (stub_env True) (ext s') - performance_now (stub_env True) (ext stub_world))
               - (performance_now (stub_env True) x2 - performance_now (stub_env True) x1)"
    by auto
  have total: "BenchmarkTotals.timeMs (totals r) = 982"
    using executeSingleRun_total [OF run] stub_run_times [OF run] by simp
  from inp have "x2 = x1 + 7" by (auto simp: stub_env_def)
  with tot total have "ext s' = 989" by (simp add: stub_env_def stub_world_def)
  with total run names have a: "\<exists>r s'. executeSingleRun (stub_env True) (stub_config 1) stub_world = (Inr r, s')
       \<and> map BenchmarkStage.name (stages r) =
           [''circuit-load'', ''backend-init'', ''witness-generate'', ''proof-generate'',
            ''proof-verify'']
       \<and> BenchmarkTotals.timeMs (totals r) = 982
       \<and> ext s' = 989"
    by (intro exI [of _ r] exI [of _ s']) simp
  from ev rj have b: "\<exists>z'. executeBenchmark (stub_env_inputs_fail ''Prover.toml not found'') (stub_config 1)
              stub_world
            = (Inl (new_CircuitLoadError
                      [Str ''Failed to load test inputs for '', Str ''simple-hash'']
                      (Some (ErrorObject (new_Error [Str ''Prover.toml not found''])))), z')
       \<and> Rejected GetTestInputs (ErrorObject (new_Error [Str ''Prover.toml not found'']))
           \<in> set (trace z')"
    by (intro exI [of _ z']) simp
  from a b show ?thesis by (rule conjI)
qed

end
